theory Spec2Isabelle
  imports Complex_Main "HOL-Library.Sublist" "HOL-Library.AList"
begin

section \<open>Python values\<close>

text \<open>
  A Python float is a finite number, an infinity or NaN. Finite floats are modelled by
  reals (rounding is not modelled); the special values are kept, because the code tests
  for them.
\<close>

datatype pyfloat = Fin real | PInf | NInf | NaN

text \<open>The value \<open>json.loads\<close> returns; a dict keeps its items in insertion order.\<close>

datatype json =
    JNull
  | JBool bool
  | JInt int
  | JFloat pyfloat
  | JStr string
  | JList "json list"
  | JDict "(string \<times> json) list"

datatype py_error =
    TypeError | ValueError | OverflowError | IndexError | AttributeError | UnicodeDecodeError

text \<open>
  Built-ins of Python whose results are not modelled here are parameters of the model:
  \<open>float_of_str\<close> is \<open>float(s)\<close> on a string (\<open>None\<close> when it raises ValueError),
  \<open>str_of\<close> is \<open>str(v)\<close> on a value that is not a string.
\<close>

record builtins =
  float_of_str :: "string \<Rightarrow> pyfloat option"
  str_of :: "json \<Rightarrow> string"

text \<open>Comparisons of a float with a finite constant: every comparison with NaN is false.\<close>

fun fgt :: "pyfloat \<Rightarrow> real \<Rightarrow> bool" where
  "fgt (Fin x) c = (x > c)"
| "fgt PInf c = True"
| "fgt NInf c = False"
| "fgt NaN c = False"

fun fge :: "pyfloat \<Rightarrow> real \<Rightarrow> bool" where
  "fge (Fin x) c = (x \<ge> c)"
| "fge PInf c = True"
| "fge NInf c = False"
| "fge NaN c = False"

fun fle :: "pyfloat \<Rightarrow> real \<Rightarrow> bool" where
  "fle (Fin x) c = (x \<le> c)"
| "fle PInf c = False"
| "fle NInf c = True"
| "fle NaN c = False"

fun feq :: "pyfloat \<Rightarrow> real \<Rightarrow> bool" where
  "feq (Fin x) c = (x = c)"
| "feq PInf c = False"
| "feq NInf c = False"
| "feq NaN c = False"

text \<open>\<open>val != val\<close> holds of NaN only.\<close>

fun is_nan :: "pyfloat \<Rightarrow> bool" where
  "is_nan NaN = True"
| "is_nan (Fin x) = False"
| "is_nan PInf = False"
| "is_nan NInf = False"

text \<open>
  \<open>float(n)\<close> on an int raises OverflowError when \<open>n\<close> rounds beyond the largest
  double.
\<close>

definition float_overflow_bound :: int where
  "float_overflow_bound = 2 ^ 1024 - 2 ^ 970"

text \<open>\<open>float(v)\<close>.\<close>

fun py_float :: "builtins \<Rightarrow> json \<Rightarrow> py_error + pyfloat" where
  "py_float py JNull = Inl TypeError"
| "py_float py (JBool b) = Inr (Fin (if b then 1 else 0))"
| "py_float py (JInt n) =
     (if \<bar>n\<bar> \<ge> float_overflow_bound then Inl OverflowError else Inr (Fin (real_of_int n)))"
| "py_float py (JFloat f) = Inr f"
| "py_float py (JStr s) =
     (case float_of_str py s of None \<Rightarrow> Inl ValueError | Some f \<Rightarrow> Inr f)"
| "py_float py (JList xs) = Inl TypeError"
| "py_float py (JDict kvs) = Inl TypeError"

text \<open>\<open>str(v)\<close>.\<close>

fun py_str :: "builtins \<Rightarrow> json \<Rightarrow> string" where
  "py_str py (JStr s) = s"
| "py_str py v = str_of py v"

text \<open>Truthiness, as \<open>if v:\<close> tests it.\<close>

fun truthy :: "json \<Rightarrow> bool" where
  "truthy JNull = False"
| "truthy (JBool b) = b"
| "truthy (JInt n) = (n \<noteq> 0)"
| "truthy (JFloat f) = (\<not> feq f 0)"
| "truthy (JStr s) = (s \<noteq> [])"
| "truthy (JList xs) = (xs \<noteq> [])"
| "truthy (JDict kvs) = (kvs \<noteq> [])"

text \<open>
  Subscription \<open>xs[i]\<close> of a list: positions 0 to len - 1 from the front, -1 down to
  -len from the back, IndexError elsewhere.
\<close>

definition py_index :: "'a list \<Rightarrow> int \<Rightarrow> py_error + 'a" where
  "py_index xs i =
     (if 0 \<le> i \<and> i < int (length xs) then Inr (xs ! nat i)
      else if i < 0 \<and> - int (length xs) \<le> i then Inr (xs ! nat (int (length xs) + i))
      else Inl IndexError)"

text \<open>\<open>d.get(k)\<close> and \<open>d.get(k, default)\<close> on a dict.\<close>

definition dict_get :: "(string \<times> json) list \<Rightarrow> string \<Rightarrow> json \<Rightarrow> json" where
  "dict_get d k dflt = (case map_of d k of None \<Rightarrow> dflt | Some v \<Rightarrow> v)"

text \<open>
  \<open>needle in v\<close> for a string needle: substring of a string, element of a list, key of a
  dict; any other value raises TypeError.
\<close>

fun py_in :: "string \<Rightarrow> json \<Rightarrow> py_error + bool" where
  "py_in needle (JStr s) = Inr (sublist needle s)"
| "py_in needle (JList xs) = Inr (JStr needle \<in> set xs)"
| "py_in needle (JDict kvs) = Inr (needle \<in> fst ` set kvs)"
| "py_in needle v = Inl TypeError"

text \<open>The values on which the membership test is defined: a string, a list and a dict.\<close>

fun supports_in :: "json \<Rightarrow> bool" where
  "supports_in (JStr s) = True"
| "supports_in (JList xs) = True"
| "supports_in (JDict kvs) = True"
| "supports_in v = False"

section \<open>The positional-array normalizer (ultimate\_whale\_discovery.py)\<close>

text \<open>\<open>safe_extract(array, index, default)\<close>; the index is never negative at its call sites.\<close>

definition safe_extract :: "builtins \<Rightarrow> json list \<Rightarrow> nat \<Rightarrow> string \<Rightarrow> string" where
  "safe_extract py array index dflt =
     (if index < length array \<and> array ! index \<noteq> JNull
      then py_str py (array ! index) else dflt)"

text \<open>
  \<open>safe_float_extract(array, index, default)\<close>. The body of the \<open>try\<close> is
  \<open>safe_float_extract_body\<close>, which can raise; the bare \<open>except\<close> turns every exception
  into the default.
\<close>

definition safe_float_extract_body ::
  "builtins \<Rightarrow> json list \<Rightarrow> int \<Rightarrow> pyfloat \<Rightarrow> py_error + pyfloat" where
  "safe_float_extract_body py array index dflt =
     (if index < int (length array) then
        (case py_index array index of
           Inl e \<Rightarrow> Inl e
         | Inr v \<Rightarrow>
             if v \<noteq> JNull then
               (case py_float py v of
                  Inl e \<Rightarrow> Inl e
                | Inr val \<Rightarrow> Inr (if \<not> is_nan val then val else dflt))
             else Inr dflt)
      else Inr dflt)"

definition safe_float_extract :: "builtins \<Rightarrow> json list \<Rightarrow> int \<Rightarrow> pyfloat \<Rightarrow> pyfloat" where
  "safe_float_extract py array index dflt =
     (case safe_float_extract_body py array index dflt of
        Inl e \<Rightarrow> dflt
      | Inr val \<Rightarrow> val)"

text \<open>
  The three financial metrics of \<open>process_token_array\<close>. \<open>financial_values\<close> is the first
  loop (the candidates at positions 13 to 24 that are greater than 0, with their
  positions); \<open>assign_metrics\<close> is the second loop, on the triple
  (volume\_sol, market\_cap\_sol, liquidity\_sol), which starts at 0.
\<close>

definition financial_candidates :: "int list" where
  "financial_candidates = [13, 14, 15, 16, 17, 18, 19, 20, 21, 22, 23, 24]"

definition financial_values :: "builtins \<Rightarrow> json list \<Rightarrow> (int \<times> pyfloat) list" where
  "financial_values py token_array =
     filter (\<lambda>(idx, val). fgt val 0)
       (map (\<lambda>idx. (idx, safe_float_extract py token_array idx (Fin 0))) financial_candidates)"

fun assign_metrics ::
  "(int \<times> pyfloat) list \<Rightarrow> pyfloat \<times> pyfloat \<times> pyfloat \<Rightarrow> pyfloat \<times> pyfloat \<times> pyfloat" where
  "assign_metrics [] (volume_sol, market_cap_sol, liquidity_sol) =
     (volume_sol, market_cap_sol, liquidity_sol)"
| "assign_metrics ((idx, val) # rest) (volume_sol, market_cap_sol, liquidity_sol) =
     (if fgt val 10000 then
        (if feq volume_sol 0 then assign_metrics rest (val, market_cap_sol, liquidity_sol)
         else if feq market_cap_sol 0 then assign_metrics rest (volume_sol, val, liquidity_sol)
         else assign_metrics rest (volume_sol, market_cap_sol, liquidity_sol))
      else if fgt val 100 then
        (if feq liquidity_sol 0 then assign_metrics rest (volume_sol, market_cap_sol, val)
         else assign_metrics rest (volume_sol, market_cap_sol, liquidity_sol))
      else assign_metrics rest (volume_sol, market_cap_sol, liquidity_sol))"

definition token_array_metrics :: "builtins \<Rightarrow> json list \<Rightarrow> pyfloat \<times> pyfloat \<times> pyfloat" where
  "token_array_metrics py token_array =
     assign_metrics (financial_values py token_array) (Fin 0, Fin 0, Fin 0)"

text \<open>
  The magnitude policy in the specification's words: among the candidate values in
  encounter order, the first and second above 10000 are volume and market cap, the first
  in (100, 10000] is liquidity, and a metric without a match is 0.
\<close>

definition candidate_values :: "builtins \<Rightarrow> json list \<Rightarrow> pyfloat list" where
  "candidate_values py token_array =
     map (\<lambda>idx. safe_float_extract py token_array idx (Fin 0)) financial_candidates"

definition nth_or_zero :: "pyfloat list \<Rightarrow> nat \<Rightarrow> pyfloat" where
  "nth_or_zero vs n = (if n < length vs then vs ! n else Fin 0)"

definition magnitude_policy :: "pyfloat list \<Rightarrow> pyfloat \<times> pyfloat \<times> pyfloat" where
  "magnitude_policy vs =
     (nth_or_zero (filter (\<lambda>v. fgt v 10000) vs) 0,
      nth_or_zero (filter (\<lambda>v. fgt v 10000) vs) 1,
      nth_or_zero (filter (\<lambda>v. fgt v 100 \<and> fle v 10000) vs) 0)"

section \<open>The confidence scorer (ultimate\_whale\_discovery.py)\<close>

text \<open>
  The \<open>token_data\<close> dict. A key that only one of the two normalizers sets is an option
  (\<open>None\<close>: the key is absent). Text values are strings on the positional-array path and
  whatever JSON value the upstream sent on the room-message path.
\<close>

record token_data =
  td_timestamp :: real
  td_source :: string
  td_raw_length :: "nat option"
  td_pool_id :: "json option"
  td_token_address :: json
  td_creator_address :: json
  td_token_name :: json
  td_token_ticker :: json
  td_platform :: json
  td_website :: json
  td_twitter :: json
  td_telegram :: json
  td_volume_sol :: pyfloat
  td_market_cap_sol :: pyfloat
  td_liquidity_sol :: pyfloat
  td_supply :: "pyfloat option"
  td_dev_holds_percent :: "pyfloat option"
  td_snipers_hold_percent :: "pyfloat option"
  td_top_10_holders :: "json option"
  td_lp_burned :: "json option"

text \<open>
  The number a finite float stands for. The scorer divides a float only in a branch that
  finite floats alone reach (lemma \<open>fraction_branch_finite\<close>).
\<close>

fun fin_value :: "pyfloat \<Rightarrow> real" where
  "fin_value (Fin x) = x"
| "fin_value PInf = 0"
| "fin_value NInf = 0"
| "fin_value NaN = 0"

text \<open>\<open>token_data.get(key, 0)\<close> on a numeric key.\<close>

definition get_number :: "pyfloat option \<Rightarrow> pyfloat" where
  "get_number v = (case v of None \<Rightarrow> Fin 0 | Some x \<Rightarrow> x)"

definition liquidity_points :: "pyfloat \<Rightarrow> real" where
  "liquidity_points liquidity =
     (if fge liquidity 1000 then 0.4
      else if fge liquidity 100 then 0.3
      else if fge liquidity 10 then 0.2
      else if fgt liquidity 0 then fin_value liquidity / 50
      else 0)"

definition sniper_points :: "pyfloat \<Rightarrow> real" where
  "sniper_points snipers_percent =
     (if fge snipers_percent 50 then 0.4
      else if fge snipers_percent 25 then 0.3
      else if fge snipers_percent 10 then 0.2
      else if fgt snipers_percent 0 then fin_value snipers_percent / 100
      else 0)"

definition dev_points :: "pyfloat \<Rightarrow> real" where
  "dev_points dev_percent =
     (if fle dev_percent 5 then 0.1
      else if fge dev_percent 50 then - 0.2
      else 0)"

definition lp_points :: "json option \<Rightarrow> real" where
  "lp_points lp_burned =
     (if truthy (case lp_burned of None \<Rightarrow> JBool False | Some v \<Rightarrow> v) then 0.1 else 0)"

text \<open>
  \<open>'Raydium' in platform or 'Meteora' in platform\<close>, then \<open>'Pump AMM' in platform\<close>: the
  membership test raises TypeError on a platform that is no string, list or dict.
\<close>

definition platform_points :: "json \<Rightarrow> py_error + real" where
  "platform_points platform =
     (case py_in ''Raydium'' platform of
        Inl e \<Rightarrow> Inl e
      | Inr True \<Rightarrow> Inr 0.1
      | Inr False \<Rightarrow>
          (case py_in ''Meteora'' platform of
             Inl e \<Rightarrow> Inl e
           | Inr True \<Rightarrow> Inr 0.1
           | Inr False \<Rightarrow>
               (case py_in ''Pump AMM'' platform of
                  Inl e \<Rightarrow> Inl e
                | Inr True \<Rightarrow> Inr 0.05
                | Inr False \<Rightarrow> Inr 0)))"

definition social_points :: "token_data \<Rightarrow> real" where
  "social_points td =
     (if truthy (td_website td) then 0.05 else 0)
     + (if truthy (td_twitter td) then 0.05 else 0)
     + (if truthy (td_telegram td) then 0.05 else 0)"

text \<open>The sum before the clamp, in the order the code adds it up.\<close>

definition raw_score :: "token_data \<Rightarrow> py_error + real" where
  "raw_score td =
     (case platform_points (td_platform td) of
        Inl e \<Rightarrow> Inl e
      | Inr pp \<Rightarrow>
          Inr (0
               + liquidity_points (td_liquidity_sol td)
               + sniper_points (get_number (td_snipers_hold_percent td))
               + dev_points (get_number (td_dev_holds_percent td))
               + lp_points (td_lp_burned td)
               + pp
               + social_points td))"

definition calculate_whale_confidence :: "token_data \<Rightarrow> py_error + real" where
  "calculate_whale_confidence td =
     (case raw_score td of
        Inl e \<Rightarrow> Inl e
      | Inr score \<Rightarrow> Inr (min 1 (max 0 score)))"

section \<open>The discovery store (ultimate\_whale\_discovery.py)\<close>

record whale_discovery =
  timestamp :: real
  whale_address :: json
  token_address :: json
  token_name :: json
  token_ticker :: json
  volume_sol :: pyfloat
  market_cap_sol :: pyfloat
  liquidity_sol :: pyfloat
  platform :: json
  confidence_score :: real
  raw_data :: json

record metrics =
  messages_received :: nat
  whales_discovered :: nat
  auto_added :: nat
  start_time :: real
  last_whale_time :: real

text \<open>
  The file \<open>config/tracked-wallets.json\<close>: absent, unreadable (loading it raises, or it
  has no list of wallets), or a list of wallets. An entry of the list is determined by
  the whale it is made from, and is modelled by that whale.
\<close>

datatype 'w config_file = Absent | Unreadable | Wallets "'w list"

text \<open>
  \<open>discovered_whales\<close> is a dict: an association list in insertion order, which the
  code extends only with a key that is not in it.
\<close>

record discovery_state =
  discovered_whales :: "(json \<times> whale_discovery) list"
  metrics :: metrics
  tracked_wallets :: "whale_discovery config_file"

definition init_state :: "real \<Rightarrow> discovery_state" where
  "init_state now =
     \<lparr>discovered_whales = [],
      metrics = \<lparr>messages_received = 0, whales_discovered = 0, auto_added = 0,
                 start_time = now, last_whale_time = 0\<rparr>,
      tracked_wallets = Absent\<rparr>"

text \<open>
  \<open>auto_add_whale\<close>: an exception while the file is loaded is caught and logged, and
  nothing is counted. Failures of writing the file are not modelled.
\<close>

definition auto_add_whale :: "whale_discovery \<Rightarrow> discovery_state \<Rightarrow> discovery_state" where
  "auto_add_whale whale s =
     (case tracked_wallets s of
        Unreadable \<Rightarrow> s
      | Absent \<Rightarrow>
          s\<lparr>tracked_wallets := Wallets [whale],
            metrics := (metrics s)\<lparr>auto_added := auto_added (metrics s) + 1\<rparr>\<rparr>
      | Wallets ws \<Rightarrow>
          s\<lparr>tracked_wallets := Wallets (ws @ [whale]),
            metrics := (metrics s)\<lparr>auto_added := auto_added (metrics s) + 1\<rparr>\<rparr>)"

text \<open>A list or a dict is no dict key; only a string can be sliced for the log line.\<close>

fun hashable :: "json \<Rightarrow> bool" where
  "hashable (JList xs) = False"
| "hashable (JDict kvs) = False"
| "hashable v = True"

fun is_str :: "json \<Rightarrow> bool" where
  "is_str (JStr s) = True"
| "is_str v = False"

text \<open>
  \<open>record_whale_discovery(token_data, confidence, raw_data)\<close>. The result is the state
  the call leaves and the exception it raises, if any: the log lines slice
  \<open>whale_address\<close>, which raises TypeError after the store was written when the address
  is no string. Keys are compared with HOL equality (Python also identifies the keys
  1, 1.0 and True, which are no wallet addresses).
\<close>

definition record_whale_discovery ::
  "token_data \<Rightarrow> real \<Rightarrow> json \<Rightarrow> real \<Rightarrow> discovery_state
     \<Rightarrow> discovery_state \<times> py_error option" where
  "record_whale_discovery td confidence raw now s =
     (let address = td_creator_address td in
      if \<not> hashable address then (s, Some TypeError)
      else
        (case map_of (discovered_whales s) address of
           Some existing \<Rightarrow>
             if confidence > confidence_score existing then
               (s\<lparr>discovered_whales :=
                    AList.update address (existing\<lparr>confidence_score := confidence\<rparr>)
                      (discovered_whales s)\<rparr>,
                if is_str address then None else Some TypeError)
             else (s, None)
         | None \<Rightarrow>
             (let whale =
                    \<lparr>timestamp = td_timestamp td,
                     whale_address = address,
                     token_address = td_token_address td,
                     token_name = td_token_name td,
                     token_ticker = td_token_ticker td,
                     volume_sol = td_volume_sol td,
                     market_cap_sol = td_market_cap_sol td,
                     liquidity_sol = td_liquidity_sol td,
                     platform = td_platform td,
                     confidence_score = confidence,
                     raw_data = raw\<rparr>;
                  s1 = s\<lparr>discovered_whales := discovered_whales s @ [(address, whale)],
                         metrics := (metrics s)
                           \<lparr>whales_discovered := whales_discovered (metrics s) + 1,
                            last_whale_time := now\<rparr>\<rparr>
              in if \<not> is_str address then (s1, Some TypeError)
                 else if confidence > 0.7 then (auto_add_whale whale s1, None)
                 else (s1, None))))"

text \<open>The best score the store holds for an address.\<close>

definition best_score :: "discovery_state \<Rightarrow> json \<Rightarrow> real option" where
  "best_score s address = map_option confidence_score (map_of (discovered_whales s) address)"

text \<open>The records the store holds for an address.\<close>

definition records_of :: "discovery_state \<Rightarrow> json \<Rightarrow> whale_discovery list" where
  "records_of s address = map snd (filter (\<lambda>kv. fst kv = address) (discovered_whales s))"

section \<open>The two normalizers and the frame parser (ultimate\_whale\_discovery.py)\<close>

text \<open>
  \<open>process_token_array(token_array, source)\<close>, at the clock reading \<open>now\<close>. An
  exception of the scorer or of the store is caught and logged; what the store wrote
  before it stays.
\<close>

definition array_token_data :: "builtins \<Rightarrow> real \<Rightarrow> json list \<Rightarrow> string \<Rightarrow> token_data" where
  "array_token_data py now token_array source =
     (case token_array_metrics py token_array of
        (volume, market_cap, liquidity) \<Rightarrow>
          \<lparr>td_timestamp = now,
           td_source = source,
           td_raw_length = Some (length token_array),
           td_pool_id = Some (JStr (safe_extract py token_array 0 [])),
           td_token_address = JStr (safe_extract py token_array 1 []),
           td_creator_address = JStr (safe_extract py token_array 2 []),
           td_token_name = JStr (safe_extract py token_array 3 ''Unknown''),
           td_token_ticker = JStr (safe_extract py token_array 4 ''UNKNOWN''),
           td_platform = JStr (safe_extract py token_array 7 ''Unknown''),
           td_website = JStr (safe_extract py token_array 9 []),
           td_twitter = JStr (safe_extract py token_array 10 []),
           td_telegram = JStr (safe_extract py token_array 11 []),
           td_volume_sol = volume,
           td_market_cap_sol = market_cap,
           td_liquidity_sol = liquidity,
           td_supply = None,
           td_dev_holds_percent = None,
           td_snipers_hold_percent = None,
           td_top_10_holders = None,
           td_lp_burned = None\<rparr>)"

definition process_token_array ::
  "builtins \<Rightarrow> real \<Rightarrow> json list \<Rightarrow> string \<Rightarrow> discovery_state \<Rightarrow> discovery_state" where
  "process_token_array py now token_array source s =
     (if length token_array < 10 then s
      else
        (let td = array_token_data py now token_array source in
         case calculate_whale_confidence td of
           Inl e \<Rightarrow> s
         | Inr confidence \<Rightarrow>
             if confidence > 0.4
             then fst (record_whale_discovery td confidence (JList token_array) now s)
             else s))"

text \<open>
  \<open>safe_get_float(data, key)\<close> of \<open>process_sdk_new_pairs\<close>, with the default 0.0. It
  catches ValueError and TypeError only: the OverflowError of a huge int passes through.
\<close>

definition safe_get_float ::
  "builtins \<Rightarrow> (string \<times> json) list \<Rightarrow> string \<Rightarrow> py_error + pyfloat" where
  "safe_get_float py data key =
     (let v = dict_get data key (JFloat (Fin 0)) in
      if v \<noteq> JNull then
        (case py_float py v of
           Inl ValueError \<Rightarrow> Inr (Fin 0)
         | Inl TypeError \<Rightarrow> Inr (Fin 0)
         | Inl e \<Rightarrow> Inl e
         | Inr f \<Rightarrow> Inr f)
      else Inr (Fin 0))"

text \<open>The \<open>token_data\<close> dict of one token of a new\_pairs message.\<close>

definition sdk_token_data ::
  "builtins \<Rightarrow> real \<Rightarrow> (string \<times> json) list \<Rightarrow> string \<Rightarrow> py_error + token_data" where
  "sdk_token_data py now token source =
     (case safe_get_float py token ''initial_liquidity_sol'' of
        Inl e \<Rightarrow> Inl e
      | Inr liquidity \<Rightarrow>
     (case safe_get_float py token ''supply'' of
        Inl e \<Rightarrow> Inl e
      | Inr supply \<Rightarrow>
     (case safe_get_float py token ''dev_holds_percent'' of
        Inl e \<Rightarrow> Inl e
      | Inr dev \<Rightarrow>
     (case safe_get_float py token ''snipers_hold_percent'' of
        Inl e \<Rightarrow> Inl e
      | Inr snipers \<Rightarrow>
          Inr \<lparr>td_timestamp = now,
               td_source = source,
               td_raw_length = None,
               td_pool_id = None,
               td_token_address = dict_get token ''token_address'' (JStr []),
               td_creator_address = dict_get token ''deployer_address'' (JStr []),
               td_token_name = dict_get token ''token_name'' (JStr ''Unknown''),
               td_token_ticker = dict_get token ''token_ticker'' (JStr ''UNKNOWN''),
               td_platform = dict_get token ''protocol'' (JStr ''Unknown''),
               td_website = dict_get token ''website'' (JStr []),
               td_twitter = dict_get token ''twitter'' (JStr []),
               td_telegram = dict_get token ''telegram'' (JStr []),
               td_volume_sol = Fin 0,
               td_market_cap_sol = Fin 0,
               td_liquidity_sol = liquidity,
               td_supply = Some supply,
               td_dev_holds_percent = Some dev,
               td_snipers_hold_percent = Some snipers,
               td_top_10_holders = Some (dict_get token ''top_10_holders'' (JList [])),
               td_lp_burned = Some (dict_get token ''lp_burned'' (JBool False))\<rparr>))))"

text \<open>The body of the loop of \<open>process_sdk_new_pairs\<close> for a token that is a dict.\<close>

definition process_sdk_token ::
  "builtins \<Rightarrow> real \<Rightarrow> (string \<times> json) list \<Rightarrow> string \<Rightarrow> discovery_state
     \<Rightarrow> discovery_state \<times> py_error option" where
  "process_sdk_token py now token source s =
     (case sdk_token_data py now token source of
        Inl e \<Rightarrow> (s, Some e)
      | Inr td \<Rightarrow>
          (case calculate_whale_confidence td of
             Inl e \<Rightarrow> (s, Some e)
           | Inr confidence \<Rightarrow>
               if confidence > 0.4
               then record_whale_discovery td confidence (JDict token) now s
               else (s, None)))"

text \<open>
  The loop: a token that is no dict is skipped, an exception ends the loop (the
  \<open>try\<close> is around the loop) and is logged.
\<close>

fun sdk_tokens_loop ::
  "builtins \<Rightarrow> real \<Rightarrow> json list \<Rightarrow> string \<Rightarrow> discovery_state \<Rightarrow> discovery_state" where
  "sdk_tokens_loop py now [] source s = s"
| "sdk_tokens_loop py now (JDict token # rest) source s =
     (case process_sdk_token py now token source s of
        (s', Some e) \<Rightarrow> s'
      | (s', None) \<Rightarrow> sdk_tokens_loop py now rest source s')"
| "sdk_tokens_loop py now (v # rest) source s = sdk_tokens_loop py now rest source s"

definition process_sdk_new_pairs ::
  "builtins \<Rightarrow> real \<Rightarrow> json \<Rightarrow> string \<Rightarrow> discovery_state \<Rightarrow> discovery_state" where
  "process_sdk_new_pairs py now tokens source s =
     sdk_tokens_loop py now (case tokens of JList ts \<Rightarrow> ts | v \<Rightarrow> [v]) source s"

text \<open>
  \<open>process_sdk_wallet_transaction\<close> builds a dict and logs it; an exception is caught.
  It writes nothing of the state.
\<close>

definition process_sdk_wallet_transaction ::
  "json \<Rightarrow> string \<Rightarrow> discovery_state \<Rightarrow> discovery_state" where
  "process_sdk_wallet_transaction transaction source s = s"

text \<open>\<open>handle_structured_message(data, endpoint)\<close>; the loop over the interesting fields logs.\<close>

definition handle_structured_message ::
  "builtins \<Rightarrow> real \<Rightarrow> (string \<times> json) list \<Rightarrow> string \<Rightarrow> discovery_state \<Rightarrow> discovery_state" where
  "handle_structured_message py now data endpoint s =
     (if map_of data ''type'' \<noteq> None then
        (case map_of data ''data'' of
           Some (JList xs) \<Rightarrow> process_token_array py now xs (endpoint @ ''-nested'') s
         | _ \<Rightarrow> s)
      else s)"

text \<open>
  A frame as \<open>parse_real_message\<close> sees it after decoding and \<open>json.loads\<close>: bytes that
  are no UTF-8, text that is no JSON, or a JSON value.
\<close>

datatype frame = Undecodable | NotJson | Json json

text \<open>
  \<open>parse_real_message(raw_message, endpoint, msg_num)\<close>. The outer \<open>except\<close> catches
  every exception, so the result is always a state. \<open>handle_non_json_data\<close> and the
  branch for arrays of 6 to 25 elements only log.
\<close>

definition parse_real_message ::
  "builtins \<Rightarrow> real \<Rightarrow> frame \<Rightarrow> string \<Rightarrow> discovery_state \<Rightarrow> discovery_state" where
  "parse_real_message py now raw_message endpoint s =
     (case raw_message of
        Undecodable \<Rightarrow> s
      | NotJson \<Rightarrow> s
      | Json (JDict data) \<Rightarrow>
          if map_of data ''room'' = Some (JStr ''new_pairs'') \<and> map_of data ''content'' \<noteq> None
          then process_sdk_new_pairs py now (dict_get data ''content'' JNull) endpoint s
          else
            (case dict_get data ''room'' (JStr []) of
               JStr room \<Rightarrow>
                 if prefix ''v:'' room \<and> map_of data ''content'' \<noteq> None
                 then process_sdk_wallet_transaction (dict_get data ''content'' JNull) endpoint s
                 else handle_structured_message py now data endpoint s
             | _ \<Rightarrow> s)
      | Json (JList data) \<Rightarrow>
          if length data > 25 then process_token_array py now data endpoint s
          else s
      | Json _ \<Rightarrow> s)"

section \<open>The volume score and the store of final\_production\_whale\_discovery.py\<close>

text \<open>
  \<open>calculate_final_score\<close> on the volume. The arithmetic of the branches maps a finite
  float to a finite float and keeps an infinity or NaN.
\<close>

fun fmap :: "(real \<Rightarrow> real) \<Rightarrow> pyfloat \<Rightarrow> pyfloat" where
  "fmap f (Fin x) = Fin (f x)"
| "fmap f PInf = PInf"
| "fmap f NInf = NInf"
| "fmap f NaN = NaN"

definition calculate_final_score :: "pyfloat \<Rightarrow> pyfloat" where
  "calculate_final_score volume =
     (if fge volume 10000 then Fin 1.0
      else if fge volume 1000 then fmap (\<lambda>v. 0.8 + (v - 1000) / 45000) volume
      else if fge volume 100 then fmap (\<lambda>v. 0.5 + (v - 100) / 4500) volume
      else fmap (\<lambda>v. v / 200) volume)"

record final_whale_discovery =
  fw_wallet_address :: string
  fw_token_name :: string
  fw_token_ticker :: string
  fw_token_address :: string
  fw_volume_sol :: pyfloat
  fw_confidence_score :: pyfloat
  fw_discovery_timestamp :: real
  fw_source_endpoint :: string
  fw_raw_data :: "json list"

text \<open>The \<open>token_data\<close> dict of \<open>parse_final_token_array\<close>: every text value is a \<open>str(...)\<close>.\<close>

record final_token_data =
  ft_token_address :: string
  ft_creator_address :: string
  ft_token_name :: string
  ft_token_ticker :: string
  ft_volume_sol :: pyfloat
  ft_platform :: string

record final_state =
  fs_discovered_whales :: "(string \<times> final_whale_discovery) list"
  fs_whales_discovered :: nat
  fs_auto_added :: nat
  fs_tracked_wallets :: "final_whale_discovery config_file"

text \<open>\<open>auto_add_final_whale\<close> counts first and then writes the file.\<close>

definition auto_add_final_whale :: "final_whale_discovery \<Rightarrow> final_state \<Rightarrow> final_state" where
  "auto_add_final_whale whale s =
     (let s1 = s\<lparr>fs_auto_added := fs_auto_added s + 1\<rparr> in
      case fs_tracked_wallets s of
        Unreadable \<Rightarrow> s1
      | Absent \<Rightarrow> s1\<lparr>fs_tracked_wallets := Wallets [whale]\<rparr>
      | Wallets ws \<Rightarrow> s1\<lparr>fs_tracked_wallets := Wallets (ws @ [whale])\<rparr>)"

definition discover_final_whale ::
  "final_token_data \<Rightarrow> string \<Rightarrow> json list \<Rightarrow> real \<Rightarrow> final_state \<Rightarrow> final_state" where
  "discover_final_whale td source raw_array now s =
     (let wallet = ft_creator_address td in
      if map_of (fs_discovered_whales s) wallet \<noteq> None then s
      else
        (let whale =
               \<lparr>fw_wallet_address = wallet,
                fw_token_name = ft_token_name td,
                fw_token_ticker = ft_token_ticker td,
                fw_token_address = ft_token_address td,
                fw_volume_sol = ft_volume_sol td,
                fw_confidence_score = calculate_final_score (ft_volume_sol td),
                fw_discovery_timestamp = now,
                fw_source_endpoint = source,
                fw_raw_data = raw_array\<rparr>;
             s1 = s\<lparr>fs_discovered_whales := fs_discovered_whales s @ [(wallet, whale)],
                    fs_whales_discovered := fs_whales_discovered s + 1\<rparr>
         in if fge (fw_confidence_score whale) 0.45 then auto_add_final_whale whale s1
            else s1))"

section \<open>The discovery store of enhanced\_whale\_discovery.py\<close>

record enhanced_whale =
  ew_wallet_address :: string
  ew_token_name :: string
  ew_token_ticker :: string
  ew_token_address :: string
  ew_market_cap_sol :: pyfloat
  ew_volume_sol :: pyfloat
  ew_liquidity_sol :: pyfloat
  ew_price_sol :: pyfloat
  ew_platform :: string
  ew_verified_contract :: bool
  ew_confidence_score :: real
  ew_discovery_timestamp :: real
  ew_auto_added :: bool
  ew_raw_data :: json

text \<open>The two thresholds of \<open>self.config\<close>.\<close>

record enhanced_config =
  discovery_threshold :: real
  auto_add_threshold :: real

definition default_config :: enhanced_config where
  "default_config = \<lparr>discovery_threshold = 0.25, auto_add_threshold = 0.45\<rparr>"

record enhanced_state =
  es_discovered_whales :: "(string \<times> enhanced_whale) list"
  es_whales_discovered :: nat
  es_auto_added :: nat
  es_tracked_wallets :: "enhanced_whale config_file"

definition enhanced_init :: enhanced_state where
  "enhanced_init =
     \<lparr>es_discovered_whales = [], es_whales_discovered = 0, es_auto_added = 0,
      es_tracked_wallets = Absent\<rparr>"

text \<open>
  \<open>auto_add_whale(whale)\<close>: the whale is the object the store holds, so setting its
  \<open>auto_added\<close> changes the stored record. The flag and the counter are written before
  the file is loaded.
\<close>

definition enhanced_auto_add_whale :: "enhanced_whale \<Rightarrow> enhanced_state \<Rightarrow> enhanced_state" where
  "enhanced_auto_add_whale whale s =
     (let whale' = whale\<lparr>ew_auto_added := True\<rparr>;
          s1 = s\<lparr>es_discovered_whales :=
                   AList.update (ew_wallet_address whale) whale' (es_discovered_whales s),
                 es_auto_added := es_auto_added s + 1\<rparr>
      in case es_tracked_wallets s of
           Unreadable \<Rightarrow> s1
         | Absent \<Rightarrow> s1\<lparr>es_tracked_wallets := Wallets [whale']\<rparr>
         | Wallets ws \<Rightarrow> s1\<lparr>es_tracked_wallets := Wallets (ws @ [whale'])\<rparr>)"

text \<open>
  \<open>process_whale_discovery(whale)\<close>. The boolean of the result tells whether the call
  promoted the wallet, that is, whether it called \<open>auto_add_whale\<close>.
\<close>

definition process_whale_discovery ::
  "enhanced_config \<Rightarrow> enhanced_whale \<Rightarrow> enhanced_state \<Rightarrow> bool \<times> enhanced_state" where
  "process_whale_discovery cfg whale s =
     (let wallet = ew_wallet_address whale in
      case map_of (es_discovered_whales s) wallet of
        Some existing \<Rightarrow>
          if ew_confidence_score whale > ew_confidence_score existing then
            (False,
             s\<lparr>es_discovered_whales :=
                 AList.update wallet
                   (existing\<lparr>ew_confidence_score := ew_confidence_score whale\<rparr>)
                   (es_discovered_whales s)\<rparr>)
          else (False, s)
      | None \<Rightarrow>
          (let s1 = s\<lparr>es_discovered_whales := es_discovered_whales s @ [(wallet, whale)],
                      es_whales_discovered := es_whales_discovered s + 1\<rparr>
           in if ew_confidence_score whale \<ge> auto_add_threshold cfg
              then (True, enhanced_auto_add_whale whale s1)
              else (False, s1)))"

text \<open>A sequence of calls, with the promotion result of each call in order.\<close>

fun process_all ::
  "enhanced_config \<Rightarrow> enhanced_whale list \<Rightarrow> enhanced_state \<Rightarrow> bool list \<times> enhanced_state" where
  "process_all cfg [] s = ([], s)"
| "process_all cfg (whale # rest) s =
     (case process_whale_discovery cfg whale s of
        (promoted, s1) \<Rightarrow>
          (case process_all cfg rest s1 of
             (results, s2) \<Rightarrow> (promoted # results, s2)))"

definition enhanced_best_score :: "enhanced_state \<Rightarrow> string \<Rightarrow> real option" where
  "enhanced_best_score s wallet =
     map_option ew_confidence_score (map_of (es_discovered_whales s) wallet)"

definition enhanced_promoted :: "enhanced_state \<Rightarrow> string \<Rightarrow> bool option" where
  "enhanced_promoted s wallet =
     map_option ew_auto_added (map_of (es_discovered_whales s) wallet)"

section \<open>The rate-limited variant (ultimate\_whale\_discovery\_safe.py)\<close>

text \<open>
  This file has no embedding. It is no Python program: in \<open>__init__\<close> of
  \<open>RateLimitSafeWhaleDiscovery\<close> the assignment \<open>self.auth_data = {\<close> (line 74) stands 24
  columns deep, after statements at 8 columns that open no block, so the compiler rejects
  the file with an IndentationError. The class is never defined; its methods
  \<open>can_attempt_connection\<close>, \<open>record_connection_attempt\<close> and
  \<open>handle_rate_limit_response\<close> never run.
\<close>

section \<open>The connection handler (ultimate\_whale\_discovery.py)\<close>

text \<open>
  What one pass through the \<open>try\<close> of \<open>websocket_connection_handler\<close> ends with: the
  connection was made and \<open>listen_for_real_data\<close> returned (it catches a closed
  connection itself), or one of the exceptions the handler catches.
\<close>

datatype attempt_outcome =
    ListenReturned
  | ConnectTimeout
  | InvalidStatusCode nat
  | ConnectionClosed
  | OtherException

datatype handler_event =
    Connecting nat
  | RefreshAuthentication
  | AccessForbidden
  | Retrying nat
  | MaxRetriesExceeded

definition max_retries :: nat where
  "max_retries = 10"

text \<open>
  The loop of the handler while \<open>self.running\<close> holds, from \<open>retry_count\<close> on, against
  the outcomes of the attempts in order. The result is what the handler does:
  \<open>Connecting k\<close> is attempt number \<open>k\<close>, \<open>Retrying w\<close> is the sleep of \<open>w\<close> seconds
  before the next attempt. When the outcomes are used up and the loop goes on, the next
  attempt is the last event.
\<close>

fun connection_loop :: "nat \<Rightarrow> attempt_outcome list \<Rightarrow> handler_event list" where
  "connection_loop retry_count [] =
     (if retry_count < max_retries then [Connecting (retry_count + 1)]
      else [MaxRetriesExceeded])"
| "connection_loop retry_count (outcome # rest) =
     (if retry_count < max_retries then
        Connecting (retry_count + 1) #
        (case outcome of
           ListenReturned \<Rightarrow>
             Retrying (min (2 ^ retry_count) 60) # connection_loop retry_count rest
         | InvalidStatusCode code \<Rightarrow>
             if code = 401 then
               RefreshAuthentication #
               (if retry_count + 1 < max_retries
                then Retrying (min (2 ^ (retry_count + 1)) 60) # connection_loop (retry_count + 1) rest
                else connection_loop (retry_count + 1) rest)
             else if code = 403 then [AccessForbidden]
             else
               (if retry_count + 1 < max_retries
                then Retrying (min (2 ^ (retry_count + 1)) 60) # connection_loop (retry_count + 1) rest
                else connection_loop (retry_count + 1) rest)
         | _ \<Rightarrow>
             (if retry_count + 1 < max_retries
              then Retrying (min (2 ^ (retry_count + 1)) 60) # connection_loop (retry_count + 1) rest
              else connection_loop (retry_count + 1) rest))
      else [MaxRetriesExceeded])"

definition websocket_connection_handler :: "attempt_outcome list \<Rightarrow> handler_event list" where
  "websocket_connection_handler outcomes = connection_loop 0 outcomes"


section \<open>Runs of several calls\<close>

text \<open>
  The number of calls among a sequence of \<open>process_whale_discovery\<close> calls that promoted
  the wallet \<open>w\<close>.
\<close>

definition promotions_of ::
  "enhanced_config \<Rightarrow> enhanced_whale list \<Rightarrow> enhanced_state \<Rightarrow> string \<Rightarrow> nat" where
  "promotions_of cfg whales s w =
     length (filter (\<lambda>(whale, promoted). promoted \<and> ew_wallet_address whale = w)
               (zip whales (fst (process_all cfg whales s))))"

text \<open>A sequence of \<open>record_whale_discovery\<close> calls, each with its confidence and raw data.\<close>

fun record_all ::
  "(token_data \<times> real \<times> json) list \<Rightarrow> real \<Rightarrow> discovery_state \<Rightarrow> discovery_state" where
  "record_all [] now s = s"
| "record_all ((td, confidence, raw) # rest) now s =
     record_all rest now (fst (record_whale_discovery td confidence raw now s))"


definition final_init :: final_state where
  "final_init =
     \<lparr>fs_discovered_whales = [], fs_whales_discovered = 0, fs_auto_added = 0,
      fs_tracked_wallets = Absent\<rparr>"

definition final_best_score :: "final_state \<Rightarrow> string \<Rightarrow> pyfloat option" where
  "final_best_score s wallet =
     map_option fw_confidence_score (map_of (fs_discovered_whales s) wallet)"

section \<open>Example inputs\<close>

text \<open>Built-ins under which no string parses as a float.\<close>

definition plain_builtins :: builtins where
  "plain_builtins = \<lparr>float_of_str = (\<lambda>s. None), str_of = (\<lambda>v. ''?'')\<rparr>"

definition sample_values :: "json list" where
  "sample_values = [JFloat NaN, JNull, JStr ''abc'', JInt 7]"

text \<open>A token whose developer holds 60 percent and that has nothing else to show.\<close>

definition risky_token :: token_data where
  "risky_token =
     \<lparr>td_timestamp = 0, td_source = ''cluster7'', td_raw_length = None, td_pool_id = None,
      td_token_address = JStr ''T'', td_creator_address = JStr ''W'',
      td_token_name = JStr ''Unknown'', td_token_ticker = JStr ''UNKNOWN'',
      td_platform = JStr ''Unknown'', td_website = JStr [], td_twitter = JStr [],
      td_telegram = JStr [], td_volume_sol = Fin 0, td_market_cap_sol = Fin 0,
      td_liquidity_sol = Fin 0, td_supply = Some (Fin 0),
      td_dev_holds_percent = Some (Fin 60), td_snipers_hold_percent = Some (Fin 0),
      td_top_10_holders = Some (JList []), td_lp_burned = Some (JBool False)\<rparr>"

text \<open>A token with every bonus of the rubric: the sum before the clamp is 1.25.\<close>

definition crowded_token :: token_data where
  "crowded_token =
     \<lparr>td_timestamp = 0, td_source = ''cluster7'', td_raw_length = None, td_pool_id = None,
      td_token_address = JStr ''T'', td_creator_address = JStr ''W'',
      td_token_name = JStr ''Rumor Coin'', td_token_ticker = JStr ''RUMOR'',
      td_platform = JStr ''Raydium CLMM'', td_website = JStr ''site'', td_twitter = JStr ''tw'',
      td_telegram = JStr ''tg'', td_volume_sol = Fin 0, td_market_cap_sol = Fin 0,
      td_liquidity_sol = Fin 1200, td_supply = Some (Fin 0),
      td_dev_holds_percent = Some (Fin 3), td_snipers_hold_percent = Some (Fin 60),
      td_top_10_holders = Some (JList []), td_lp_burned = Some (JBool True)\<rparr>"


text \<open>An event of the wallet \<open>W\<close> with a token name of its own.\<close>

definition wallet_event :: "string \<Rightarrow> token_data" where
  "wallet_event name =
     \<lparr>td_timestamp = 0, td_source = ''cluster7'', td_raw_length = None, td_pool_id = None,
      td_token_address = JStr ''T'', td_creator_address = JStr ''W'',
      td_token_name = JStr name, td_token_ticker = JStr ''UNKNOWN'',
      td_platform = JStr ''Unknown'', td_website = JStr [], td_twitter = JStr [],
      td_telegram = JStr [], td_volume_sol = Fin 0, td_market_cap_sol = Fin 0,
      td_liquidity_sol = Fin 0, td_supply = None,
      td_dev_holds_percent = None, td_snipers_hold_percent = None,
      td_top_10_holders = None, td_lp_burned = None\<rparr>"

text \<open>A scored event of the wallet \<open>W\<close> for the store of enhanced\_whale\_discovery.py.\<close>

definition scored_whale :: "real \<Rightarrow> enhanced_whale" where
  "scored_whale score =
     \<lparr>ew_wallet_address = ''W'', ew_token_name = ''Rumor Coin'', ew_token_ticker = ''RUMOR'',
      ew_token_address = ''T'', ew_market_cap_sol = Fin 0, ew_volume_sol = Fin 0,
      ew_liquidity_sol = Fin 0, ew_price_sol = Fin 0, ew_platform = ''Raydium CLMM'',
      ew_verified_contract = True, ew_confidence_score = score, ew_discovery_timestamp = 0,
      ew_auto_added = False, ew_raw_data = JNull\<rparr>"

text \<open>A positional array of five fields, and a new\_pairs message with an empty content.\<close>

definition short_array :: frame where
  "short_array = Json (JList [JInt 1, JStr ''TokAddr'', JStr ''CreatorAddr'', JStr ''Rumor Coin'',
                              JStr ''RUMOR''])"

definition empty_room_message :: frame where
  "empty_room_message = Json (JDict [(''room'', JStr ''new_pairs''), (''content'', JDict [])])"

text \<open>A new\_pairs message whose content has two numbers and no address, name or platform.\<close>

definition nameless_room_message :: frame where
  "nameless_room_message =
     Json (JDict [(''room'', JStr ''new_pairs''),
                  (''content'', JDict [(''initial_liquidity_sol'', JInt 1200),
                                       (''snipers_hold_percent'', JInt 60)])])"

text \<open>The record the store holds for \<open>W\<close> after the event named \<open>A\<close> came first.\<close>

definition stored_whale :: "real \<Rightarrow> whale_discovery" where
  "stored_whale score =
     \<lparr>timestamp = 0, whale_address = JStr ''W'', token_address = JStr ''T'',
      token_name = JStr ''A'', token_ticker = JStr ''UNKNOWN'', volume_sol = Fin 0,
      market_cap_sol = Fin 0, liquidity_sol = Fin 0, platform = JStr ''Unknown'',
      confidence_score = score, raw_data = JNull\<rparr>"

text \<open>
  Two events of the wallet \<open>W\<close> that pass the gate of 0.4, the second with the higher
  score; and the scores 0.3, 0.5 and 0.2 for the wallet.
\<close>

definition rising_scores :: "(token_data \<times> real \<times> json) list" where
  "rising_scores = [(wallet_event ''A'', 0.5, JNull), (wallet_event ''B'', 0.8, JNull)]"

definition three_scores :: "(token_data \<times> real \<times> json) list" where
  "three_scores =
     [(wallet_event ''A'', 0.3, JNull), (wallet_event ''B'', 0.5, JNull),
      (wallet_event ''C'', 0.2, JNull)]"

text \<open>An event of the wallet \<open>W\<close> for final\_production\_whale\_discovery.py.\<close>

definition final_event :: "pyfloat \<Rightarrow> final_token_data" where
  "final_event volume =
     \<lparr>ft_token_address = ''T'', ft_creator_address = ''W'', ft_token_name = ''Rumor Coin'',
      ft_token_ticker = ''RUMOR'', ft_volume_sol = volume, ft_platform = ''Raydium CLMM''\<rparr>"

text \<open>Three failed attempts of three kinds, and ten timeouts in a row.\<close>

definition three_failures :: "attempt_outcome list" where
  "three_failures = [ConnectTimeout, ConnectionClosed, InvalidStatusCode 401]"


text \<open>
  The content of a new\_pairs message whose protocol is the JSON \<open>null\<close>, and the
  \<open>token_data\<close> that \<open>process_sdk_new_pairs\<close> builds from it.
\<close>

definition null_protocol_content :: "(string \<times> json) list" where
  "null_protocol_content =
     [(''initial_liquidity_sol'', JFloat (Fin 1200)), (''protocol'', JNull)]"

definition null_protocol_token :: token_data where
  "null_protocol_token =
     \<lparr>td_timestamp = 0, td_source = ''cluster7'', td_raw_length = None, td_pool_id = None,
      td_token_address = JStr [], td_creator_address = JStr [],
      td_token_name = JStr ''Unknown'', td_token_ticker = JStr ''UNKNOWN'',
      td_platform = JNull, td_website = JStr [], td_twitter = JStr [],
      td_telegram = JStr [], td_volume_sol = Fin 0, td_market_cap_sol = Fin 0,
      td_liquidity_sol = Fin 1200, td_supply = Some (Fin 0),
      td_dev_holds_percent = Some (Fin 0), td_snipers_hold_percent = Some (Fin 0),
      td_top_10_holders = Some (JList []), td_lp_burned = Some (JBool False)\<rparr>"

text \<open>
  The content of a new\_pairs message whose initial liquidity is NaN (\<open>json.loads\<close>
  reads the literal \<open>NaN\<close>), and the \<open>token_data\<close> built from it.
\<close>

definition nan_liquidity_content :: "(string \<times> json) list" where
  "nan_liquidity_content = [(''initial_liquidity_sol'', JFloat NaN)]"

definition nan_liquidity_token :: token_data where
  "nan_liquidity_token =
     \<lparr>td_timestamp = 0, td_source = ''cluster7'', td_raw_length = None, td_pool_id = None,
      td_token_address = JStr [], td_creator_address = JStr [],
      td_token_name = JStr ''Unknown'', td_token_ticker = JStr ''UNKNOWN'',
      td_platform = JStr ''Unknown'', td_website = JStr [], td_twitter = JStr [],
      td_telegram = JStr [], td_volume_sol = Fin 0, td_market_cap_sol = Fin 0,
      td_liquidity_sol = NaN, td_supply = Some (Fin 0),
      td_dev_holds_percent = Some (Fin 0), td_snipers_hold_percent = Some (Fin 0),
      td_top_10_holders = Some (JList []), td_lp_burned = Some (JBool False)\<rparr>"

section \<open>Properties of the Python values\<close>

lemma py_index_out_of_range:
  "int (length a) \<le> i \<or> i < - int (length a) \<Longrightarrow> py_index a i = Inl IndexError"
  by (auto simp: py_index_def)

lemma fgt_not_feq: "fgt v c \<Longrightarrow> 0 \<le> c \<Longrightarrow> \<not> feq v 0"
  by (cases v) auto

lemma fgt_weaken: "fgt v c \<Longrightarrow> d \<le> c \<Longrightarrow> fgt v d"
  by (cases v) auto

lemma fgt_fle: "fgt v 100 \<Longrightarrow> (\<not> fgt v c) = fle v c"
  by (cases v) auto

lemma fraction_branch_finite:
  "fgt l 0 \<Longrightarrow> \<not> fge l c \<Longrightarrow> \<exists>x. l = Fin x \<and> 0 < x \<and> x < c"
  by (cases l) auto

lemma safe_float_extract_not_nan:
  "\<not> is_nan d \<Longrightarrow> \<not> is_nan (safe_float_extract py a i d)"
  by (auto simp: safe_float_extract_def safe_float_extract_body_def split: sum.splits if_splits)

section \<open>The magnitude policy\<close>

lemma nth_or_zero_Cons0: "nth_or_zero (v # vs) 0 = v"
  by (simp add: nth_or_zero_def)

lemma nth_or_zero_Cons1: "nth_or_zero (v # vs) (Suc 0) = nth_or_zero vs 0"
  by (simp add: nth_or_zero_def)

text \<open>
  The second loop from any starting triple: a metric that is not 0 stays, a metric that
  is 0 takes the first candidate of its range that no earlier metric took.
\<close>

lemma assign_metrics_general:
  "assign_metrics xs (vol, mc, liq) =
     (if feq vol 0 then nth_or_zero (filter (\<lambda>v. fgt v 10000) (map snd xs)) 0 else vol,
      if \<not> feq mc 0 then mc
      else if feq vol 0 then nth_or_zero (filter (\<lambda>v. fgt v 10000) (map snd xs)) 1
      else nth_or_zero (filter (\<lambda>v. fgt v 10000) (map snd xs)) 0,
      if feq liq 0 then nth_or_zero (filter (\<lambda>v. fgt v 100 \<and> fle v 10000) (map snd xs)) 0
      else liq)"
proof (induction xs arbitrary: vol mc liq)
  case Nil
  then show ?case
    by (cases vol; cases mc; cases liq) (auto simp: nth_or_zero_def)
next
  case (Cons p xs)
  obtain idx val where p: "p = (idx, val)" by (cases p)
  show ?case
  proof (cases "fgt val 10000")
    case True
    then have nz: "\<not> feq val 0" by (rule fgt_not_feq) simp
    from True have g100: "fgt val 100" by (rule fgt_weaken) simp
    from True g100 have nm: "\<not> fle val 10000" using fgt_fle by blast
    show ?thesis using True nz nm
      by (simp add: p Cons.IH nth_or_zero_Cons0 nth_or_zero_Cons1)
  next
    case False
    show ?thesis
    proof (cases "fgt val 100")
      case True
      then have nz: "\<not> feq val 0" by (rule fgt_not_feq) simp
      from True False have le: "fle val 10000" using fgt_fle by blast
      show ?thesis using True False nz le
        by (simp add: p Cons.IH nth_or_zero_Cons0)
    next
      case small: False
      show ?thesis using False small
        by (simp add: p Cons.IH)
    qed
  qed
qed

text \<open>Dropping the candidates that are not above 0 loses no candidate of either range.\<close>

lemma filter_positive_candidates:
  assumes "0 \<le> c"
  shows "filter (\<lambda>v. fgt v c \<and> P v) (map snd (filter (\<lambda>(idx, val). fgt val 0) ps))
         = filter (\<lambda>v. fgt v c \<and> P v) (map snd ps)"
proof (induction ps)
  case Nil
  show ?case by simp
next
  case (Cons p ps)
  obtain idx val where p: "p = (idx, val)" by (cases p)
  have "fgt val c \<Longrightarrow> fgt val 0" using assms by (rule fgt_weaken [rotated])
  then show ?case using Cons by (auto simp: p)
qed

lemma map_snd_candidates:
  "map snd (map (\<lambda>idx. (idx, safe_float_extract py a idx (Fin 0))) financial_candidates)
   = candidate_values py a"
  by (simp add: candidate_values_def comp_def)

lemma volume_candidates:
  "filter (\<lambda>v. fgt v 10000) (map snd (financial_values py a))
   = filter (\<lambda>v. fgt v 10000) (candidate_values py a)"
proof -
  have "filter (\<lambda>v. fgt v 10000) (map snd (financial_values py a))
        = filter (\<lambda>v. fgt v 10000 \<and> True)
            (map snd (filter (\<lambda>(idx, val). fgt val 0)
               (map (\<lambda>idx. (idx, safe_float_extract py a idx (Fin 0))) financial_candidates)))"
    by (simp add: financial_values_def)
  also have "\<dots> = filter (\<lambda>v. fgt v 10000 \<and> True)
            (map snd (map (\<lambda>idx. (idx, safe_float_extract py a idx (Fin 0))) financial_candidates))"
    by (rule filter_positive_candidates) simp
  finally show ?thesis by (simp only: map_snd_candidates simp_thms)
qed

lemma liquidity_candidates:
  "filter (\<lambda>v. fgt v 100 \<and> fle v 10000) (map snd (financial_values py a))
   = filter (\<lambda>v. fgt v 100 \<and> fle v 10000) (candidate_values py a)"
proof -
  have "filter (\<lambda>v. fgt v 100 \<and> fle v 10000) (map snd (financial_values py a))
        = filter (\<lambda>v. fgt v 100 \<and> fle v 10000)
            (map snd (filter (\<lambda>(idx, val). fgt val 0)
               (map (\<lambda>idx. (idx, safe_float_extract py a idx (Fin 0))) financial_candidates)))"
    by (simp add: financial_values_def)
  also have "\<dots> = filter (\<lambda>v. fgt v 100 \<and> fle v 10000)
            (map snd (map (\<lambda>idx. (idx, safe_float_extract py a idx (Fin 0))) financial_candidates))"
    by (rule filter_positive_candidates) simp
  finally show ?thesis by (simp only: map_snd_candidates)
qed

lemma token_array_metrics_policy:
  "token_array_metrics py a = magnitude_policy (candidate_values py a)"
  by (simp add: token_array_metrics_def magnitude_policy_def assign_metrics_general
      volume_candidates liquidity_candidates)


lemma float_overflow_bound_large: "n < 2 ^ 64 \<Longrightarrow> \<not> float_overflow_bound \<le> n"
proof -
  assume "n < 2 ^ 64"
  moreover have "(2::int) ^ 64 \<le> 2 ^ 1024 - 2 ^ 970" by simp
  ultimately show ?thesis by (simp add: float_overflow_bound_def)
qed




section \<open>The numeric extraction never yields NaN\<close>

lemma candidate_values_not_nan: "\<forall>v \<in> set (candidate_values py a). \<not> is_nan v"
  by (auto simp: candidate_values_def safe_float_extract_not_nan)

lemma nth_or_zero_not_nan: "\<forall>v \<in> set vs. \<not> is_nan v \<Longrightarrow> \<not> is_nan (nth_or_zero vs n)"
  by (auto simp: nth_or_zero_def)

text \<open>The three metrics that the positional-array path hands to the scorer are no NaN.\<close>

lemma array_token_data_not_nan:
  "\<not> is_nan (td_volume_sol (array_token_data py now a source))
   \<and> \<not> is_nan (td_market_cap_sol (array_token_data py now a source))
   \<and> \<not> is_nan (td_liquidity_sol (array_token_data py now a source))"
proof -
  have f: "\<forall>v \<in> set (filter P (candidate_values py a)). \<not> is_nan v" for P
    using candidate_values_not_nan [of py a] by simp
  show ?thesis
    using nth_or_zero_not_nan [OF f]
    by (simp add: array_token_data_def token_array_metrics_policy magnitude_policy_def)
qed

text \<open>
  C10, as amended: \<open>safe_float_extract\<close> is a total function into the floats (the bare
  \<open>except\<close> catches whatever the body raises) and, with the default 0.0, never returns
  NaN: an index out of range on either side, a \<open>None\<close> entry, a value that \<open>float\<close>
  rejects and a NaN all give 0.0. So the numeric fields that come from it, the volume,
  market cap and liquidity that \<open>process_token_array\<close> hands to the scorer, are no NaN.
\<close>

theorem safe_float_extract_never_nan:
  "safe_float_extract py a i (Fin 0) \<noteq> NaN
   \<and> (int (length a) \<le> i \<or> i < - int (length a) \<longrightarrow> safe_float_extract py a i (Fin 0) = Fin 0)
   \<and> (py_index a i = Inr JNull \<longrightarrow> safe_float_extract py a i (Fin 0) = Fin 0)
   \<and> (\<forall>v e. py_index a i = Inr v \<and> py_float py v = Inl e
         \<longrightarrow> safe_float_extract py a i (Fin 0) = Fin 0)
   \<and> (\<forall>v. py_index a i = Inr v \<and> py_float py v = Inr NaN
         \<longrightarrow> safe_float_extract py a i (Fin 0) = Fin 0)
   \<and> \<not> is_nan (td_volume_sol (array_token_data py now a source))
   \<and> \<not> is_nan (td_market_cap_sol (array_token_data py now a source))
   \<and> \<not> is_nan (td_liquidity_sol (array_token_data py now a source))"
proof (intro conjI impI allI)
  have "\<not> is_nan (safe_float_extract py a i (Fin 0))"
    by (rule safe_float_extract_not_nan) simp
  then show "safe_float_extract py a i (Fin 0) \<noteq> NaN" by auto
next
  assume "int (length a) \<le> i \<or> i < - int (length a)"
  then show "safe_float_extract py a i (Fin 0) = Fin 0"
    by (auto simp: safe_float_extract_def safe_float_extract_body_def py_index_out_of_range
        split: sum.splits)
next
  assume "py_index a i = Inr JNull"
  then show "safe_float_extract py a i (Fin 0) = Fin 0"
    by (auto simp: safe_float_extract_def safe_float_extract_body_def split: sum.splits)
next
  fix v e assume "py_index a i = Inr v \<and> py_float py v = Inl e"
  then show "safe_float_extract py a i (Fin 0) = Fin 0"
    by (auto simp: safe_float_extract_def safe_float_extract_body_def split: sum.splits)
next
  fix v assume "py_index a i = Inr v \<and> py_float py v = Inr NaN"
  then show "safe_float_extract py a i (Fin 0) = Fin 0"
    by (auto simp: safe_float_extract_def safe_float_extract_body_def split: sum.splits)
next
  show "\<not> is_nan (td_volume_sol (array_token_data py now a source))"
    and "\<not> is_nan (td_market_cap_sol (array_token_data py now a source))"
    and "\<not> is_nan (td_liquidity_sol (array_token_data py now a source))"
    using array_token_data_not_nan [of py now a source] by simp_all
qed

lemma sample_index:
  "py_index sample_values 0 = Inr (JFloat NaN)"
  "py_index sample_values 1 = Inr JNull"
  "py_index sample_values 2 = Inr (JStr ''abc'')"
  "py_index sample_values (-1) = Inr (JInt 7)"
  by (simp_all add: py_index_def sample_values_def)

lemma sample_float:
  "py_float plain_builtins (JFloat NaN) = Inr NaN"
  "py_float plain_builtins (JStr ''abc'') = Inl ValueError"
  by (simp_all add: plain_builtins_def)

theorem safe_float_extract_witness:
  "safe_float_extract plain_builtins sample_values 0 (Fin 0) = Fin 0
   \<and> safe_float_extract plain_builtins sample_values 1 (Fin 0) = Fin 0
   \<and> safe_float_extract plain_builtins sample_values 2 (Fin 0) = Fin 0
   \<and> safe_float_extract plain_builtins sample_values 4 (Fin 0) = Fin 0
   \<and> safe_float_extract plain_builtins sample_values (-5) (Fin 0) = Fin 0
   \<and> safe_float_extract plain_builtins sample_values (-1) (Fin 0) \<noteq> NaN"
proof -
  have len: "int (length sample_values) = 4" by (simp add: sample_values_def)
  note t = safe_float_extract_never_nan [of plain_builtins sample_values]
  have "safe_float_extract plain_builtins sample_values 0 (Fin 0) = Fin 0"
    using t [of 0] sample_index(1) sample_float(1) by blast
  moreover have "safe_float_extract plain_builtins sample_values 1 (Fin 0) = Fin 0"
    using t [of 1] sample_index(2) by blast
  moreover have "safe_float_extract plain_builtins sample_values 2 (Fin 0) = Fin 0"
    using t [of 2] sample_index(3) sample_float(2) by blast
  moreover have "safe_float_extract plain_builtins sample_values 4 (Fin 0) = Fin 0"
    using t [of 4] len by simp
  moreover have "safe_float_extract plain_builtins sample_values (-5) (Fin 0) = Fin 0"
    using t [of "-5"] len by simp
  moreover have "safe_float_extract plain_builtins sample_values (-1) (Fin 0) \<noteq> NaN"
    using t [of "-1"] by blast
  ultimately show ?thesis by blast
qed

text \<open>
  C10 as stated fails in its last clause: not every numeric field fed to the scorer comes
  from \<open>safe_float_extract\<close>. On the room-message path \<open>safe_get_float\<close> has no NaN test:
  a content whose initial liquidity is NaN gives a \<open>token_data\<close> whose liquidity is NaN,
  and this is what \<open>calculate_whale_confidence\<close> is called on (NaN fails every
  comparison of the scorer and adds nothing to the score).
\<close>

theorem room_message_nan_counterexample:
  "safe_get_float plain_builtins nan_liquidity_content ''initial_liquidity_sol'' = Inr NaN
   \<and> sdk_token_data plain_builtins 0 nan_liquidity_content ''cluster7''
       = Inr nan_liquidity_token
   \<and> is_nan (td_liquidity_sol nan_liquidity_token)
   \<and> calculate_whale_confidence nan_liquidity_token = Inr (1 / 10)"
proof (intro conjI)
  show "safe_get_float plain_builtins nan_liquidity_content ''initial_liquidity_sol'' = Inr NaN"
    by (simp add: safe_get_float_def dict_get_def nan_liquidity_content_def plain_builtins_def)
  show "sdk_token_data plain_builtins 0 nan_liquidity_content ''cluster7''
        = Inr nan_liquidity_token"
    by (simp add: sdk_token_data_def safe_get_float_def dict_get_def
        nan_liquidity_content_def nan_liquidity_token_def plain_builtins_def)
  show "is_nan (td_liquidity_sol nan_liquidity_token)"
    by (simp add: nan_liquidity_token_def)
  have "raw_score nan_liquidity_token = Inr (1 / 10)"
    by (simp add: raw_score_def nan_liquidity_token_def platform_points_def sublist_code(3)
        liquidity_points_def sniper_points_def dev_points_def lp_points_def
        social_points_def get_number_def)
  then show "calculate_whale_confidence nan_liquidity_token = Inr (1 / 10)"
    by (simp add: calculate_whale_confidence_def)
qed

section \<open>The confidence scorer stays in the unit interval\<close>

lemma platform_points_str:
  "platform_points (JStr p) =
     Inr (if sublist ''Raydium'' p \<or> sublist ''Meteora'' p then 0.1
          else if sublist ''Pump AMM'' p then 0.05 else 0)"
  by (cases "sublist ''Raydium'' p"; cases "sublist ''Meteora'' p";
      cases "sublist ''Pump AMM'' p")
     (simp_all add: platform_points_def)

lemma platform_points_defined:
  "py_in ''Raydium'' p = Inr a \<Longrightarrow> py_in ''Meteora'' p = Inr b
   \<Longrightarrow> py_in ''Pump AMM'' p = Inr c
   \<Longrightarrow> platform_points p = Inr (if a \<or> b then 0.1 else if c then 0.05 else 0)"
  by (cases a; cases b; cases c) (simp_all add: platform_points_def)

lemma py_in_defined: "supports_in p \<Longrightarrow> \<exists>b. py_in needle p = Inr b"
  by (cases p) simp_all

lemma raw_score_supported: "supports_in (td_platform td) \<Longrightarrow> \<exists>r. raw_score td = Inr r"
proof -
  assume h: "supports_in (td_platform td)"
  obtain a b c where "py_in ''Raydium'' (td_platform td) = Inr a"
    and "py_in ''Meteora'' (td_platform td) = Inr b"
    and "py_in ''Pump AMM'' (td_platform td) = Inr c"
    using py_in_defined [OF h] by blast
  then show ?thesis
    using platform_points_defined [of "td_platform td" a b c] by (simp add: raw_score_def)
qed

lemma calculate_final_score_finite:
  "calculate_final_score (Fin v) =
     Fin (if v \<ge> 10000 then 1
          else if v \<ge> 1000 then 0.8 + (v - 1000) / 45000
          else if v \<ge> 100 then 0.5 + (v - 100) / 4500
          else v / 200)"
  by (simp add: calculate_final_score_def)

text \<open>
  C1, as amended: \<open>calculate_whale_confidence\<close> returns a value in [0, 1] on every token
  whose platform is a string, a list or a dict, for every liquidity, sniper and developer
  percentage (NaN and the infinities included), LP flag and social field, also when the
  sum before the clamp is negative or above 1; and whatever it returns lies in [0, 1].
  The volume score \<open>calculate_final_score\<close> of final\_production\_whale\_discovery.py
  lies in [0, 1] on every volume that is not negative, the positive infinity included.
\<close>

theorem calculate_whale_confidence_in_unit_interval:
  "(\<forall>score. calculate_whale_confidence td = Inr score \<longrightarrow> 0 \<le> score \<and> score \<le> 1)
   \<and> (supports_in (td_platform td) \<longrightarrow>
        (\<exists>score. calculate_whale_confidence td = Inr score \<and> 0 \<le> score \<and> score \<le> 1))
   \<and> (0 \<le> v \<longrightarrow>
        (\<exists>score. calculate_final_score (Fin v) = Fin score \<and> 0 \<le> score \<and> score \<le> 1))
   \<and> calculate_final_score PInf = Fin 1"
proof (intro conjI)
  show "0 \<le> v \<longrightarrow>
        (\<exists>score. calculate_final_score (Fin v) = Fin score \<and> 0 \<le> score \<and> score \<le> 1)"
    unfolding calculate_final_score_finite by (auto simp: field_simps)
next
  show "\<forall>score. calculate_whale_confidence td = Inr score \<longrightarrow> 0 \<le> score \<and> score \<le> 1"
    by (auto simp: calculate_whale_confidence_def split: sum.splits)
next
  show "supports_in (td_platform td) \<longrightarrow>
        (\<exists>score. calculate_whale_confidence td = Inr score \<and> 0 \<le> score \<and> score \<le> 1)"
  proof
    assume "supports_in (td_platform td)"
    then obtain r where "raw_score td = Inr r" using raw_score_supported by blast
    then have "calculate_whale_confidence td = Inr (min 1 (max 0 r))"
      by (simp add: calculate_whale_confidence_def)
    moreover have "0 \<le> min 1 (max 0 r) \<and> min 1 (max 0 r) \<le> 1" by simp
    ultimately
    show "\<exists>score. calculate_whale_confidence td = Inr score \<and> 0 \<le> score \<and> score \<le> 1"
      by blast
  qed
next
  show "calculate_final_score PInf = Fin 1"
    by (simp add: calculate_final_score_def)
qed

lemma unknown_platform: "platform_points (JStr ''Unknown'') = Inr 0"
  by (simp add: platform_points_str sublist_code(3))

text \<open>The sum of the risky token is negative before the clamp.\<close>

lemma risky_raw_score: "raw_score risky_token = Inr (- 0.2)"
  by (simp add: raw_score_def risky_token_def unknown_platform liquidity_points_def
      sniper_points_def dev_points_def lp_points_def social_points_def get_number_def)

lemma risky_confidence: "calculate_whale_confidence risky_token = Inr 0"
  by (simp add: calculate_whale_confidence_def risky_raw_score)

text \<open>The sum of the crowded token is above 1 before the clamp.\<close>

lemma raydium_platform: "platform_points (JStr ''Raydium CLMM'') = Inr 0.1"
  by (simp add: platform_points_str sublist_code(3))

lemma crowded_raw_score: "raw_score crowded_token = Inr 1.25"
  by (simp add: raw_score_def crowded_token_def raydium_platform liquidity_points_def
      sniper_points_def dev_points_def lp_points_def social_points_def get_number_def)

lemma crowded_confidence: "calculate_whale_confidence crowded_token = Inr 1"
  by (simp add: calculate_whale_confidence_def crowded_raw_score)

theorem calculate_whale_confidence_witness:
  "supports_in (td_platform risky_token) \<and> calculate_whale_confidence risky_token = Inr 0
   \<and> supports_in (td_platform crowded_token)
   \<and> calculate_whale_confidence crowded_token = Inr 1
   \<and> (0::real) \<le> 13600
   \<and> (\<exists>score. calculate_final_score (Fin 13600) = Fin score \<and> 0 \<le> score \<and> score \<le> 1)"
proof -
  have v: "(0::real) \<le> 13600" by simp
  from calculate_whale_confidence_in_unit_interval [where v = 13600] v
  have f: "\<exists>score. calculate_final_score (Fin 13600) = Fin score \<and> 0 \<le> score \<and> score \<le> 1"
    by blast
  have p: "supports_in (td_platform risky_token)" by (simp add: risky_token_def)
  have q: "supports_in (td_platform crowded_token)" by (simp add: crowded_token_def)
  from calculate_whale_confidence_in_unit_interval [of risky_token] p
  have "\<exists>score. calculate_whale_confidence risky_token = Inr score \<and> 0 \<le> score \<and> score \<le> 1"
    by blast
  moreover
  from calculate_whale_confidence_in_unit_interval [of crowded_token] q
  have "\<exists>score. calculate_whale_confidence crowded_token = Inr score \<and> 0 \<le> score \<and> score \<le> 1"
    by blast
  ultimately show ?thesis using p q v f by (simp add: risky_confidence crowded_confidence)
qed

text \<open>
  C1 as stated fails on two inputs. The volume score has no clamp: a volume of -200 at
  position 17 of a positional array scores -1, and NaN scores NaN. And
  \<open>calculate_whale_confidence\<close> returns nothing on a platform that is no string, list or
  dict: \<open>process_sdk_new_pairs\<close> passes the protocol of the message on as it came, and on
  the JSON \<open>null\<close> the membership test raises TypeError.
\<close>

theorem scorer_outside_unit_interval_counterexample:
  "calculate_final_score (Fin (- 200)) = Fin (- 1)
   \<and> calculate_final_score NaN = NaN
   \<and> sdk_token_data plain_builtins 0 null_protocol_content ''cluster7''
       = Inr null_protocol_token
   \<and> calculate_whale_confidence null_protocol_token = Inl TypeError"
proof (intro conjI)
  show "calculate_final_score (Fin (- 200)) = Fin (- 1)"
    by (simp add: calculate_final_score_def)
  show "calculate_final_score NaN = NaN"
    by (simp add: calculate_final_score_def)
  show "sdk_token_data plain_builtins 0 null_protocol_content ''cluster7''
        = Inr null_protocol_token"
    by (simp add: sdk_token_data_def safe_get_float_def dict_get_def
        null_protocol_content_def null_protocol_token_def plain_builtins_def)
  show "calculate_whale_confidence null_protocol_token = Inl TypeError"
    by (simp add: calculate_whale_confidence_def raw_score_def platform_points_def
        null_protocol_token_def)
qed

section \<open>The volume score\<close>

text \<open>
  C9: on non-negative volumes \<open>calculate_final_score\<close> is monotonically non-decreasing
  and at most 1.0; at the cut-points 100, 1000 and 10000 the score is 0.5, 0.8 and 1.0,
  which the branch below each cut-point does not exceed.
\<close>

theorem calculate_final_score_monotone:
  "(0 \<le> v1 \<and> v1 \<le> v2 \<longrightarrow>
      (\<exists>s1 s2. calculate_final_score (Fin v1) = Fin s1
         \<and> calculate_final_score (Fin v2) = Fin s2
         \<and> 0 \<le> s1 \<and> s1 \<le> s2 \<and> s2 \<le> 1))
   \<and> calculate_final_score (Fin 100) = Fin 0.5
   \<and> calculate_final_score (Fin 1000) = Fin 0.8
   \<and> calculate_final_score (Fin 10000) = Fin 1
   \<and> (v < 100 \<longrightarrow> calculate_final_score (Fin v) = Fin (v / 200) \<and> v / 200 < 0.5)
   \<and> (100 \<le> v \<and> v < 1000 \<longrightarrow>
        calculate_final_score (Fin v) = Fin (0.5 + (v - 100) / 4500)
        \<and> 0.5 + (v - 100) / 4500 < 0.8)
   \<and> (1000 \<le> v \<and> v < 10000 \<longrightarrow>
        calculate_final_score (Fin v) = Fin (0.8 + (v - 1000) / 45000)
        \<and> 0.8 + (v - 1000) / 45000 < 1)"
proof (intro conjI impI)
  assume h: "0 \<le> v1 \<and> v1 \<le> v2"
  show "\<exists>s1 s2. calculate_final_score (Fin v1) = Fin s1
         \<and> calculate_final_score (Fin v2) = Fin s2
         \<and> 0 \<le> s1 \<and> s1 \<le> s2 \<and> s2 \<le> 1"
    unfolding calculate_final_score_finite using h by (auto simp: field_simps)
qed (simp_all add: calculate_final_score_finite field_simps)

theorem calculate_final_score_witness:
  "(0::real) \<le> 50 \<and> (50::real) \<le> 5500
   \<and> (\<exists>s1 s2. calculate_final_score (Fin 50) = Fin s1
         \<and> calculate_final_score (Fin 5500) = Fin s2 \<and> 0 \<le> s1 \<and> s1 \<le> s2 \<and> s2 \<le> 1)
   \<and> calculate_final_score (Fin 50) = Fin (50 / 200)
   \<and> calculate_final_score (Fin 999) = Fin (0.5 + (999 - 100) / 4500)
   \<and> calculate_final_score (Fin 9999) = Fin (0.8 + (9999 - 1000) / 45000)"
proof -
  have h: "(0::real) \<le> 50 \<and> (50::real) \<le> 5500" by simp
  have a: "(50::real) < 100" by simp
  have b: "(100::real) \<le> 999 \<and> (999::real) < 1000" by simp
  have c: "(1000::real) \<le> 9999 \<and> (9999::real) < 10000" by simp
  have "\<exists>s1 s2. calculate_final_score (Fin 50) = Fin s1
         \<and> calculate_final_score (Fin 5500) = Fin s2 \<and> 0 \<le> s1 \<and> s1 \<le> s2 \<and> s2 \<le> 1"
    using calculate_final_score_monotone [of 50 5500] h by blast
  moreover have "calculate_final_score (Fin 50) = Fin (50 / 200)"
    using calculate_final_score_monotone [where v = 50] a by blast
  moreover have "calculate_final_score (Fin 999) = Fin (0.5 + (999 - 100) / 4500)"
    using calculate_final_score_monotone [where v = 999] b by blast
  moreover have "calculate_final_score (Fin 9999) = Fin (0.8 + (9999 - 1000) / 45000)"
    using calculate_final_score_monotone [where v = 9999] c by blast
  ultimately show ?thesis using h by blast
qed

section \<open>The discovery store keeps one record and its best score\<close>

lemma filter_key_distinct:
  "distinct (map fst al) \<Longrightarrow> map_of al k = Some v
   \<Longrightarrow> filter (\<lambda>kv. fst kv = k) al = [(k, v)]"
proof (induction al)
  case Nil
  then show ?case by simp
next
  case (Cons p al)
  obtain k' v' where p: "p = (k', v')" by (cases p)
  show ?case
  proof (cases "k' = k")
    case True
    with Cons.prems p have "v' = v" by simp
    moreover from Cons.prems p True have "k \<notin> fst ` set al" by simp
    then have "filter (\<lambda>kv. fst kv = k) al = []" by (auto simp: filter_empty_conv)
    ultimately show ?thesis using p True by simp
  next
    case False
    with Cons p show ?thesis by simp
  qed
qed

text \<open>A known wallet: the stored record changes in its score only, to the larger score.\<close>

lemma record_known:
  assumes "td_creator_address td = JStr w"
    and "map_of (discovered_whales s) (JStr w) = Some existing"
  shows "record_whale_discovery td c raw now s =
     (s\<lparr>discovered_whales :=
          AList.update (JStr w)
            (existing\<lparr>confidence_score := max c (confidence_score existing)\<rparr>)
            (discovered_whales s)\<rparr>, None)"
proof (cases "c > confidence_score existing")
  case True
  then show ?thesis using assms by (simp add: record_whale_discovery_def max_def)
next
  case False
  then have m: "max c (confidence_score existing) = confidence_score existing" by simp
  have "AList.update (JStr w) existing (discovered_whales s) = discovered_whales s"
    using assms(2) by (simp add: update_triv)
  then show ?thesis using assms False m by (simp add: record_whale_discovery_def)
qed

lemma auto_add_whale_store: "discovered_whales (auto_add_whale whale s) = discovered_whales s"
  by (simp add: auto_add_whale_def split: config_file.splits)

lemma record_unknown:
  assumes "td_creator_address td = JStr w" and "map_of (discovered_whales s) (JStr w) = None"
  shows "snd (record_whale_discovery td c raw now s) = None
    \<and> (\<exists>whale. discovered_whales (fst (record_whale_discovery td c raw now s))
          = discovered_whales s @ [(JStr w, whale)]
        \<and> confidence_score whale = c)"
  using assms by (simp add: record_whale_discovery_def Let_def auto_add_whale_store)

lemma record_string_wallet:
  assumes "distinct (map fst (discovered_whales s))" and "td_creator_address td = JStr w"
  shows "snd (record_whale_discovery td c raw now s) = None
     \<and> distinct (map fst (discovered_whales (fst (record_whale_discovery td c raw now s))))
     \<and> length (records_of (fst (record_whale_discovery td c raw now s)) (JStr w)) = 1
     \<and> (\<forall>a. a \<noteq> JStr w \<longrightarrow>
           map_of (discovered_whales (fst (record_whale_discovery td c raw now s))) a
           = map_of (discovered_whales s) a)
     \<and> (case map_of (discovered_whales s) (JStr w) of
           None \<Rightarrow> best_score (fst (record_whale_discovery td c raw now s)) (JStr w) = Some c
         | Some existing \<Rightarrow>
             map_of (discovered_whales (fst (record_whale_discovery td c raw now s))) (JStr w)
             = Some (existing\<lparr>confidence_score := max c (confidence_score existing)\<rparr>))"
proof (cases "map_of (discovered_whales s) (JStr w)")
  case None
  from record_unknown [OF assms(2) None, of c raw now]
  obtain whale where e: "snd (record_whale_discovery td c raw now s) = None"
    and st: "discovered_whales (fst (record_whale_discovery td c raw now s))
          = discovered_whales s @ [(JStr w, whale)]"
    and sc: "confidence_score whale = c" by blast
  from None have notin: "JStr w \<notin> fst ` set (discovered_whales s)"
    by (simp add: map_of_eq_None_iff)
  have d: "distinct (map fst (discovered_whales s @ [(JStr w, whale)]))"
    using assms(1) notin by simp
  have m: "map_of (discovered_whales s @ [(JStr w, whale)]) (JStr w) = Some whale"
    using None by (simp add: map_add_def)
  have r: "length (records_of (fst (record_whale_discovery td c raw now s)) (JStr w)) = 1"
    using filter_key_distinct [OF d m] by (simp add: records_of_def st)
  have o: "\<forall>a. a \<noteq> JStr w \<longrightarrow>
           map_of (discovered_whales s @ [(JStr w, whale)]) a = map_of (discovered_whales s) a"
    by (auto simp: map_add_def split: option.splits)
  show ?thesis using e d m r o sc None by (simp add: st best_score_def)
next
  case (Some existing)
  let ?new = "existing\<lparr>confidence_score := max c (confidence_score existing)\<rparr>"
  have eq: "record_whale_discovery td c raw now s =
     (s\<lparr>discovered_whales := AList.update (JStr w) ?new (discovered_whales s)\<rparr>, None)"
    by (rule record_known [OF assms(2) Some])
  have d: "distinct (map fst (AList.update (JStr w) ?new (discovered_whales s)))"
    using assms(1) by (simp add: distinct_update)
  have m: "map_of (AList.update (JStr w) ?new (discovered_whales s)) (JStr w) = Some ?new"
    by (simp add: update_conv')
  have r: "length (filter (\<lambda>kv. fst kv = JStr w)
                     (AList.update (JStr w) ?new (discovered_whales s))) = 1"
    using filter_key_distinct [OF d m] by simp
  show ?thesis using d m r Some by (simp add: eq records_of_def update_conv')
qed

text \<open>The store after a first event of \<open>W\<close>, after a higher score and after a lower one.\<close>

lemma record_first_score:
  "c \<le> 0.7 \<Longrightarrow>
   discovered_whales (fst (record_whale_discovery (wallet_event ''A'') c JNull 0 (init_state 0)))
   = [(JStr ''W'', stored_whale c)]"
  by (simp add: record_whale_discovery_def wallet_event_def init_state_def stored_whale_def Let_def)

lemma record_higher_score:
  "discovered_whales s = [(JStr ''W'', stored_whale b)] \<Longrightarrow> b < c \<Longrightarrow>
   discovered_whales (fst (record_whale_discovery (wallet_event name) c JNull 0 s))
   = [(JStr ''W'', stored_whale c)]"
  by (simp add: record_whale_discovery_def wallet_event_def stored_whale_def Let_def)

lemma record_lower_score:
  "discovered_whales s = [(JStr ''W'', stored_whale b)] \<Longrightarrow> c \<le> b \<Longrightarrow>
   fst (record_whale_discovery (wallet_event name) c JNull 0 s) = s"
  by (simp add: record_whale_discovery_def wallet_event_def stored_whale_def Let_def)

lemma rising_scores_store:
  "discovered_whales (record_all rising_scores 0 (init_state 0))
   = [(JStr ''W'', stored_whale 0.8)]"
proof -
  have "discovered_whales (fst (record_whale_discovery (wallet_event ''A'') 0.5 JNull 0
          (init_state 0))) = [(JStr ''W'', stored_whale 0.5)]"
    by (rule record_first_score) simp
  then have "discovered_whales (fst (record_whale_discovery (wallet_event ''B'') 0.8 JNull 0
          (fst (record_whale_discovery (wallet_event ''A'') 0.5 JNull 0 (init_state 0)))))
        = [(JStr ''W'', stored_whale 0.8)]"
    by (rule record_higher_score) simp
  then show ?thesis by (simp add: rising_scores_def)
qed

lemma three_scores_store:
  "discovered_whales (record_all three_scores 0 (init_state 0))
   = [(JStr ''W'', stored_whale 0.5)]"
proof -
  let ?s1 = "fst (record_whale_discovery (wallet_event ''A'') 0.3 JNull 0 (init_state 0))"
  let ?s2 = "fst (record_whale_discovery (wallet_event ''B'') 0.5 JNull 0 ?s1)"
  have "discovered_whales ?s1 = [(JStr ''W'', stored_whale 0.3)]"
    by (rule record_first_score) simp
  then have s2: "discovered_whales ?s2 = [(JStr ''W'', stored_whale 0.5)]"
    by (rule record_higher_score) simp
  then have "fst (record_whale_discovery (wallet_event ''C'') 0.2 JNull 0 ?s2) = ?s2"
    by (rule record_lower_score) simp
  with s2 show ?thesis by (simp add: three_scores_def)
qed

text \<open>The store of final\_production\_whale\_discovery.py after a first event of volume 1900.\<close>

lemma final_first_event:
  "fs_discovered_whales (discover_final_whale (final_event (Fin 1900)) ''cluster7'' [] 0 final_init)
   = [(''W'', \<lparr>fw_wallet_address = ''W'', fw_token_name = ''Rumor Coin'',
        fw_token_ticker = ''RUMOR'', fw_token_address = ''T'', fw_volume_sol = Fin 1900,
        fw_confidence_score = Fin 0.82, fw_discovery_timestamp = 0,
        fw_source_endpoint = ''cluster7'', fw_raw_data = []\<rparr>)]"
  by (simp add: discover_final_whale_def final_event_def final_init_def calculate_final_score_def
      auto_add_final_whale_def Let_def)

lemma discover_final_whale_known:
  "map_of (fs_discovered_whales fs) (ft_creator_address ftd) \<noteq> None \<Longrightarrow>
   discover_final_whale ftd source arr now fs = fs"
  by (simp add: discover_final_whale_def)

text \<open>
  C3, as the code has it: for a wallet address that is a string, a call of
  \<open>record_whale_discovery\<close> raises nothing, keeps the keys of the store distinct and
  leaves exactly one record for the wallet and every other wallet's record as it was.
  A new wallet gets a record with the confidence as its score; for a known wallet the
  stored record changes in its score only, which becomes the larger of the old score and
  the confidence, so it never decreases and a lower or equal confidence changes nothing.
  The stored event itself (token, volume, raw data) stays that of the first event. The
  scores 0.3, 0.5, 0.2 for one wallet end with the score 0.5 and one record.
  \<open>discover_final_whale\<close> ignores every event of a known wallet.
\<close>

theorem record_whale_discovery_keeps_best_score:
  "(distinct (map fst (discovered_whales s)) \<and> td_creator_address td = JStr w \<longrightarrow>
      snd (record_whale_discovery td c raw now s) = None
      \<and> distinct (map fst (discovered_whales (fst (record_whale_discovery td c raw now s))))
      \<and> length (records_of (fst (record_whale_discovery td c raw now s)) (JStr w)) = 1
      \<and> (\<forall>a. a \<noteq> JStr w \<longrightarrow>
            map_of (discovered_whales (fst (record_whale_discovery td c raw now s))) a
            = map_of (discovered_whales s) a)
      \<and> (case map_of (discovered_whales s) (JStr w) of
            None \<Rightarrow> best_score (fst (record_whale_discovery td c raw now s)) (JStr w) = Some c
          | Some existing \<Rightarrow>
              map_of (discovered_whales (fst (record_whale_discovery td c raw now s))) (JStr w)
              = Some (existing\<lparr>confidence_score := max c (confidence_score existing)\<rparr>)))
   \<and> best_score (record_all three_scores 0 (init_state 0)) (JStr ''W'') = Some 0.5
   \<and> length (discovered_whales (record_all three_scores 0 (init_state 0))) = 1
   \<and> (map_of (fs_discovered_whales fs) (ft_creator_address ftd) \<noteq> None \<longrightarrow>
        discover_final_whale ftd source arr now' fs = fs)"
proof (intro conjI impI)
  assume a: "distinct (map fst (discovered_whales s)) \<and> td_creator_address td = JStr w"
  then have d: "distinct (map fst (discovered_whales s))"
    and t: "td_creator_address td = JStr w" by simp_all
  note r = record_string_wallet [OF d t, of c raw now]
  from r show "snd (record_whale_discovery td c raw now s) = None" by blast
  from r show "distinct (map fst (discovered_whales (fst (record_whale_discovery td c raw now s))))"
    by blast
  from r show "length (records_of (fst (record_whale_discovery td c raw now s)) (JStr w)) = 1"
    by blast
  from r show "\<forall>a. a \<noteq> JStr w \<longrightarrow>
            map_of (discovered_whales (fst (record_whale_discovery td c raw now s))) a
            = map_of (discovered_whales s) a" by blast
  from r show "case map_of (discovered_whales s) (JStr w) of
            None \<Rightarrow> best_score (fst (record_whale_discovery td c raw now s)) (JStr w) = Some c
          | Some existing \<Rightarrow>
              map_of (discovered_whales (fst (record_whale_discovery td c raw now s))) (JStr w)
              = Some (existing\<lparr>confidence_score := max c (confidence_score existing)\<rparr>)"
    by blast
next
  show "best_score (record_all three_scores 0 (init_state 0)) (JStr ''W'') = Some 0.5"
    unfolding best_score_def three_scores_store by (simp add: stored_whale_def)
next
  show "length (discovered_whales (record_all three_scores 0 (init_state 0))) = 1"
    unfolding three_scores_store by simp
next
  assume "map_of (fs_discovered_whales fs) (ft_creator_address ftd) \<noteq> None"
  then show "discover_final_whale ftd source arr now' fs = fs"
    by (rule discover_final_whale_known)
qed

theorem record_whale_discovery_witness:
  "distinct (map fst (discovered_whales (init_state 0)))
   \<and> td_creator_address (wallet_event ''A'') = JStr ''W''
   \<and> best_score (fst (record_whale_discovery (wallet_event ''A'') 0.3 JNull 0 (init_state 0)))
        (JStr ''W'') = Some 0.3
   \<and> map_of (fs_discovered_whales
        (discover_final_whale (final_event (Fin 1900)) ''cluster7'' [] 0 final_init))
        (ft_creator_address (final_event (Fin 10000))) \<noteq> None
   \<and> discover_final_whale (final_event (Fin 10000)) ''cluster7'' [] 1
        (discover_final_whale (final_event (Fin 1900)) ''cluster7'' [] 0 final_init)
      = discover_final_whale (final_event (Fin 1900)) ''cluster7'' [] 0 final_init"
proof -
  have h: "distinct (map fst (discovered_whales (init_state 0)))
           \<and> td_creator_address (wallet_event ''A'') = JStr ''W''"
    by (simp add: init_state_def wallet_event_def)
  have n: "map_of (discovered_whales (init_state 0)) (JStr ''W'') = None"
    by (simp add: init_state_def)
  have k: "map_of (fs_discovered_whales
        (discover_final_whale (final_event (Fin 1900)) ''cluster7'' [] 0 final_init))
        (ft_creator_address (final_event (Fin 10000))) \<noteq> None"
    unfolding final_first_event by (simp add: final_event_def)
  note t = record_whale_discovery_keeps_best_score
    [where s = "init_state 0" and td = "wallet_event ''A''" and w = "''W''" and c = "0.3"
       and raw = JNull and now = 0
       and fs = "discover_final_whale (final_event (Fin 1900)) ''cluster7'' [] 0 final_init"
       and ftd = "final_event (Fin 10000)" and source = "''cluster7''" and arr = "[]"
       and now' = 1]
  from t h have "case map_of (discovered_whales (init_state 0)) (JStr ''W'') of
      None \<Rightarrow> best_score (fst (record_whale_discovery (wallet_event ''A'') 0.3 JNull 0
                 (init_state 0))) (JStr ''W'') = Some 0.3
    | Some existing \<Rightarrow>
        map_of (discovered_whales (fst (record_whale_discovery (wallet_event ''A'') 0.3 JNull 0
                 (init_state 0)))) (JStr ''W'')
        = Some (existing\<lparr>confidence_score := max 0.3 (confidence_score existing)\<rparr>)"
    by blast
  then have b: "best_score (fst (record_whale_discovery (wallet_event ''A'') 0.3 JNull 0
                 (init_state 0))) (JStr ''W'') = Some 0.3"
    by (simp only: n option.case)
  from t k have f: "discover_final_whale (final_event (Fin 10000)) ''cluster7'' [] 1
        (discover_final_whale (final_event (Fin 1900)) ''cluster7'' [] 0 final_init)
      = discover_final_whale (final_event (Fin 1900)) ''cluster7'' [] 0 final_init"
    by blast
  from h b k f show ?thesis by blast
qed

text \<open>
  The claim as written fails where it says that a higher confidence replaces the stored
  event: after the event named \<open>A\<close> with 0.5 and the event named \<open>B\<close> with 0.8 the store
  holds the score 0.8 with the token name of \<open>A\<close>. In final\_production\_whale\_discovery.py
  not even the score follows: after the volumes 1900 and 10000 it stays at 0.82.
\<close>

theorem best_event_counterexample:
  "best_score (record_all rising_scores 0 (init_state 0)) (JStr ''W'') = Some 0.8
   \<and> map token_name (records_of (record_all rising_scores 0 (init_state 0)) (JStr ''W''))
       = [JStr ''A'']
   \<and> td_token_name (wallet_event ''B'') = JStr ''B''
   \<and> calculate_final_score (Fin 10000) = Fin 1
   \<and> final_best_score
        (discover_final_whale (final_event (Fin 10000)) ''cluster7'' [] 1
           (discover_final_whale (final_event (Fin 1900)) ''cluster7'' [] 0 final_init)) ''W''
       = Some (Fin 0.82)"
proof -
  have "td_token_name (wallet_event ''B'') = JStr ''B''" by (simp add: wallet_event_def)
  moreover have "best_score (record_all rising_scores 0 (init_state 0)) (JStr ''W'') = Some 0.8"
    unfolding best_score_def rising_scores_store by (simp add: stored_whale_def)
  moreover have "map token_name (records_of (record_all rising_scores 0 (init_state 0))
                   (JStr ''W'')) = [JStr ''A'']"
    unfolding records_of_def rising_scores_store by (simp add: stored_whale_def)
  moreover have "calculate_final_score (Fin 10000) = Fin 1"
    by (simp add: calculate_final_score_def)
  moreover have k: "map_of (fs_discovered_whales
        (discover_final_whale (final_event (Fin 1900)) ''cluster7'' [] 0 final_init))
        (ft_creator_address (final_event (Fin 10000))) \<noteq> None"
    unfolding final_first_event by (simp add: final_event_def)
  have "final_best_score
        (discover_final_whale (final_event (Fin 10000)) ''cluster7'' [] 1
           (discover_final_whale (final_event (Fin 1900)) ''cluster7'' [] 0 final_init)) ''W''
       = Some (Fin 0.82)"
    unfolding discover_final_whale_known [OF k] final_best_score_def final_first_event
    by simp
  ultimately show ?thesis by blast
qed

section \<open>Promotion happens when the record is created\<close>

lemma enhanced_auto_add_store:
  "es_discovered_whales (enhanced_auto_add_whale whale s)
   = AList.update (ew_wallet_address whale) (whale\<lparr>ew_auto_added := True\<rparr>)
       (es_discovered_whales s)"
  by (simp add: enhanced_auto_add_whale_def Let_def split: config_file.splits)

lemma process_known:
  "map_of (es_discovered_whales s) (ew_wallet_address whale) \<noteq> None \<Longrightarrow>
   fst (process_whale_discovery cfg whale s) = False
   \<and> map fst (es_discovered_whales (snd (process_whale_discovery cfg whale s)))
       = map fst (es_discovered_whales s)"
  by (auto simp: process_whale_discovery_def Let_def update_keys map_of_eq_None_iff
      split: option.splits)

lemma process_unknown:
  assumes "map_of (es_discovered_whales s) (ew_wallet_address whale) = None"
  shows "fst (process_whale_discovery cfg whale s)
         = (ew_confidence_score whale \<ge> auto_add_threshold cfg)"
    and "map fst (es_discovered_whales (snd (process_whale_discovery cfg whale s)))
         = map fst (es_discovered_whales s) @ [ew_wallet_address whale]"
    and "map_of (es_discovered_whales (snd (process_whale_discovery cfg whale s)))
           (ew_wallet_address whale)
         = Some (whale\<lparr>ew_auto_added :=
                    (ew_auto_added whale \<or> ew_confidence_score whale \<ge> auto_add_threshold cfg)\<rparr>)"
  using assms
  by (auto simp: process_whale_discovery_def Let_def enhanced_auto_add_store update_keys
      update_conv' map_add_def)

lemma process_keys_grow:
  "set (map fst (es_discovered_whales s))
   \<subseteq> set (map fst (es_discovered_whales (snd (process_whale_discovery cfg whale s))))"
proof (cases "map_of (es_discovered_whales s) (ew_wallet_address whale)")
  case None
  from process_unknown(2) [OF None, of cfg] show ?thesis by auto
next
  case (Some a)
  then have "map_of (es_discovered_whales s) (ew_wallet_address whale) \<noteq> None" by simp
  from process_known [OF this, of cfg] show ?thesis by auto
qed

lemma process_makes_known:
  "ew_wallet_address whale
   \<in> set (map fst (es_discovered_whales (snd (process_whale_discovery cfg whale s))))"
proof (cases "map_of (es_discovered_whales s) (ew_wallet_address whale)")
  case None
  from process_unknown(2) [OF None, of cfg] show ?thesis by auto
next
  case (Some a)
  then have k: "map_of (es_discovered_whales s) (ew_wallet_address whale) \<noteq> None" by simp
  then have "ew_wallet_address whale \<in> set (map fst (es_discovered_whales s))"
    by (simp add: map_of_eq_None_iff)
  with process_known [OF k, of cfg] show ?thesis by simp
qed

text \<open>No later call promotes a wallet that the store knows.\<close>

lemma promotions_known:
  "w \<in> set (map fst (es_discovered_whales s)) \<Longrightarrow> promotions_of cfg whales s w = 0"
proof (induction whales arbitrary: s)
  case Nil
  then show ?case by (simp add: promotions_of_def)
next
  case (Cons whale whales)
  obtain p s1 where step: "process_whale_discovery cfg whale s = (p, s1)"
    by (cases "process_whale_discovery cfg whale s")
  obtain rs s2 where run: "process_all cfg whales s1 = (rs, s2)"
    by (cases "process_all cfg whales s1")
  have known1: "w \<in> set (map fst (es_discovered_whales s1))"
    using process_keys_grow [of s cfg whale] Cons.prems step by auto
  have ih: "promotions_of cfg whales s1 w = 0" by (rule Cons.IH [OF known1])
  have "\<not> (p \<and> ew_wallet_address whale = w)"
  proof
    assume a: "p \<and> ew_wallet_address whale = w"
    then have "map_of (es_discovered_whales s) (ew_wallet_address whale) \<noteq> None"
      using Cons.prems by (simp add: map_of_eq_None_iff)
    from process_known [OF this, of cfg] step a show False by simp
  qed
  then show ?case using ih step run by (auto simp: promotions_of_def)
qed

lemma promotions_at_most_one: "promotions_of cfg whales s w \<le> 1"
proof (induction whales arbitrary: s)
  case Nil
  then show ?case by (simp add: promotions_of_def)
next
  case (Cons whale whales)
  obtain p s1 where step: "process_whale_discovery cfg whale s = (p, s1)"
    by (cases "process_whale_discovery cfg whale s")
  obtain rs s2 where run: "process_all cfg whales s1 = (rs, s2)"
    by (cases "process_all cfg whales s1")
  show ?case
  proof (cases "ew_wallet_address whale = w")
    case True
    have "w \<in> set (map fst (es_discovered_whales s1))"
      using process_makes_known [of whale cfg s] step True by simp
    then have "promotions_of cfg whales s1 w = 0" by (rule promotions_known)
    then show ?thesis using step run by (auto simp: promotions_of_def)
  next
    case False
    have "promotions_of cfg whales s1 w \<le> 1" by (rule Cons.IH)
    then show ?thesis using step run False by (auto simp: promotions_of_def)
  qed
qed

lemma twice_above_threshold:
  assumes "map_of (es_discovered_whales s) (ew_wallet_address a) = None"
    and "ew_wallet_address b = ew_wallet_address a"
    and "ew_confidence_score a \<ge> auto_add_threshold cfg"
  shows "fst (process_all cfg [a, b] s) = [True, False]"
proof -
  obtain p s1 where step: "process_whale_discovery cfg a s = (p, s1)"
    by (cases "process_whale_discovery cfg a s")
  have p: "p = True" using process_unknown(1) [OF assms(1), of cfg] step assms(3) by simp
  have "ew_wallet_address b \<in> set (map fst (es_discovered_whales s1))"
    using process_makes_known [of a cfg s] step assms(2) by simp
  then have "map_of (es_discovered_whales s1) (ew_wallet_address b) \<noteq> None"
    by (simp add: map_of_eq_None_iff)
  from process_known [OF this, of cfg] have "fst (process_whale_discovery cfg b s1) = False"
    by simp
  then show ?thesis using step p by (simp add: split_def)
qed

text \<open>The store of ultimate\_whale\_discovery.py auto-adds at creation only, above 0.7.\<close>

lemma record_known_no_auto_add:
  assumes "td_creator_address td = JStr w" and "map_of (discovered_whales s) (JStr w) \<noteq> None"
  shows "tracked_wallets (fst (record_whale_discovery td c raw now s)) = tracked_wallets s
     \<and> auto_added (metrics (fst (record_whale_discovery td c raw now s)))
         = auto_added (metrics s)"
  using assms by (auto simp: record_whale_discovery_def Let_def)

lemma record_new_no_auto_add:
  assumes "td_creator_address td = JStr w" and "map_of (discovered_whales s) (JStr w) = None"
    and "c \<le> 0.7"
  shows "tracked_wallets (fst (record_whale_discovery td c raw now s)) = tracked_wallets s
     \<and> auto_added (metrics (fst (record_whale_discovery td c raw now s)))
         = auto_added (metrics s)"
  using assms by (auto simp: record_whale_discovery_def Let_def)

text \<open>
  C2, as the code has it: \<open>process_whale_discovery\<close> promotes a wallet only in the call
  that creates its record, and then exactly when the confidence of that first event
  reaches the auto-add threshold; a call for a known wallet never promotes, also when it
  raises the stored score to the threshold or above. So over any sequence of events a
  wallet is promoted at most once, and two events of one new wallet, the first at or
  above the threshold, give promoted on the first call and not on the second.
  \<open>record_whale_discovery\<close> of ultimate\_whale\_discovery.py likewise never auto-adds
  a known wallet, and a new one only with a confidence above 0.7.
\<close>

theorem promotion_only_at_creation:
  "(map_of (es_discovered_whales s) (ew_wallet_address whale) \<noteq> None \<longrightarrow>
      fst (process_whale_discovery cfg whale s) = False)
   \<and> (map_of (es_discovered_whales s) (ew_wallet_address whale) = None \<longrightarrow>
        fst (process_whale_discovery cfg whale s)
          = (ew_confidence_score whale \<ge> auto_add_threshold cfg)
        \<and> enhanced_promoted (snd (process_whale_discovery cfg whale s)) (ew_wallet_address whale)
          = Some (ew_auto_added whale \<or> ew_confidence_score whale \<ge> auto_add_threshold cfg))
   \<and> promotions_of cfg whales s w \<le> 1
   \<and> (map_of (es_discovered_whales s) (ew_wallet_address a) = None
        \<and> ew_wallet_address b = ew_wallet_address a
        \<and> ew_confidence_score a \<ge> auto_add_threshold cfg
        \<and> ew_confidence_score b \<ge> auto_add_threshold cfg \<longrightarrow>
      fst (process_all cfg [a, b] s) = [True, False])
   \<and> (td_creator_address td = JStr v
        \<and> (map_of (discovered_whales us) (JStr v) \<noteq> None \<or> c \<le> 0.7) \<longrightarrow>
      tracked_wallets (fst (record_whale_discovery td c raw now us)) = tracked_wallets us
      \<and> auto_added (metrics (fst (record_whale_discovery td c raw now us)))
          = auto_added (metrics us))"
proof (intro conjI impI)
  assume "map_of (es_discovered_whales s) (ew_wallet_address whale) \<noteq> None"
  from process_known [OF this, of cfg]
  show "fst (process_whale_discovery cfg whale s) = False" by simp
next
  assume n: "map_of (es_discovered_whales s) (ew_wallet_address whale) = None"
  show "fst (process_whale_discovery cfg whale s)
          = (ew_confidence_score whale \<ge> auto_add_threshold cfg)"
    by (rule process_unknown(1) [OF n])
  show "enhanced_promoted (snd (process_whale_discovery cfg whale s)) (ew_wallet_address whale)
          = Some (ew_auto_added whale \<or> ew_confidence_score whale \<ge> auto_add_threshold cfg)"
    by (simp add: enhanced_promoted_def process_unknown(3) [OF n])
next
  show "promotions_of cfg whales s w \<le> 1" by (rule promotions_at_most_one)
next
  assume "map_of (es_discovered_whales s) (ew_wallet_address a) = None
        \<and> ew_wallet_address b = ew_wallet_address a
        \<and> ew_confidence_score a \<ge> auto_add_threshold cfg
        \<and> ew_confidence_score b \<ge> auto_add_threshold cfg"
  then show "fst (process_all cfg [a, b] s) = [True, False]"
    by (intro twice_above_threshold) simp_all
next
  assume u: "td_creator_address td = JStr v
        \<and> (map_of (discovered_whales us) (JStr v) \<noteq> None \<or> c \<le> 0.7)"
  have "tracked_wallets (fst (record_whale_discovery td c raw now us)) = tracked_wallets us
      \<and> auto_added (metrics (fst (record_whale_discovery td c raw now us)))
          = auto_added (metrics us)"
  proof (cases "map_of (discovered_whales us) (JStr v)")
    case None
    with u have "c \<le> 0.7" by simp
    with u None show ?thesis by (intro record_new_no_auto_add) simp_all
  next
    case (Some existing)
    then have "map_of (discovered_whales us) (JStr v) \<noteq> None" by simp
    with u show ?thesis by (intro record_known_no_auto_add) simp_all
  qed
  then show "tracked_wallets (fst (record_whale_discovery td c raw now us)) = tracked_wallets us"
    and "auto_added (metrics (fst (record_whale_discovery td c raw now us)))
          = auto_added (metrics us)"
    by simp_all
qed

lemma promoted_run:
  "process_all default_config [scored_whale 0.5, scored_whale 0.5] enhanced_init =
     ([True, False],
      \<lparr>es_discovered_whales = [(''W'', (scored_whale 0.5)\<lparr>ew_auto_added := True\<rparr>)],
       es_whales_discovered = 1, es_auto_added = 1,
       es_tracked_wallets = Wallets [(scored_whale 0.5)\<lparr>ew_auto_added := True\<rparr>]\<rparr>)"
  by (simp add: process_whale_discovery_def default_config_def scored_whale_def enhanced_init_def
      Let_def enhanced_auto_add_whale_def)

lemma improved_run:
  "process_all default_config [scored_whale 0.3, scored_whale 0.5] enhanced_init =
     ([False, False],
      \<lparr>es_discovered_whales = [(''W'', scored_whale 0.5)], es_whales_discovered = 1,
       es_auto_added = 0, es_tracked_wallets = Absent\<rparr>)"
  by (simp add: process_whale_discovery_def default_config_def scored_whale_def enhanced_init_def
      Let_def)

theorem promotion_only_at_creation_witness:
  "map_of (es_discovered_whales enhanced_init) (ew_wallet_address (scored_whale 0.5)) = None
   \<and> ew_confidence_score (scored_whale 0.5) \<ge> auto_add_threshold default_config
   \<and> fst (process_all default_config [scored_whale 0.5, scored_whale 0.5] enhanced_init)
       = [True, False]
   \<and> map_of (es_discovered_whales
         (snd (process_all default_config [scored_whale 0.3] enhanced_init)))
         (ew_wallet_address (scored_whale 0.5)) \<noteq> None
   \<and> fst (process_whale_discovery default_config (scored_whale 0.5)
         (snd (process_all default_config [scored_whale 0.3] enhanced_init))) = False
   \<and> td_creator_address (wallet_event ''A'') = JStr ''W''
   \<and> (0.5::real) \<le> 0.7
   \<and> auto_added (metrics (fst (record_whale_discovery (wallet_event ''A'') 0.5 JNull 0
         (init_state 0)))) = 0"
proof -
  have u: "td_creator_address (wallet_event ''A'') = JStr ''W'' \<and> (0.5::real) \<le> 0.7"
    by (simp add: wallet_event_def)
  have z: "auto_added (metrics (init_state 0)) = 0" by (simp add: init_state_def)
  from promotion_only_at_creation
    [where td = "wallet_event ''A''" and v = "''W''" and c = "0.5" and us = "init_state 0"
       and raw = JNull and now = 0] u
  have "auto_added (metrics (fst (record_whale_discovery (wallet_event ''A'') 0.5 JNull 0
         (init_state 0)))) = auto_added (metrics (init_state 0))"
    by blast
  then have r: "auto_added (metrics (fst (record_whale_discovery (wallet_event ''A'') 0.5 JNull 0
         (init_state 0)))) = 0"
    by (simp only: z)
  have n: "map_of (es_discovered_whales enhanced_init) (ew_wallet_address (scored_whale 0.5)) = None"
    by (simp add: enhanced_init_def)
  have g: "ew_confidence_score (scored_whale 0.5) \<ge> auto_add_threshold default_config"
    by (simp add: scored_whale_def default_config_def)
  have k: "map_of (es_discovered_whales
         (snd (process_all default_config [scored_whale 0.3] enhanced_init)))
         (ew_wallet_address (scored_whale 0.5)) \<noteq> None"
    by (simp add: process_whale_discovery_def default_config_def scored_whale_def
        enhanced_init_def Let_def)
  have "fst (process_all default_config [scored_whale 0.5, scored_whale 0.5] enhanced_init)
       = [True, False]"
    using promotion_only_at_creation
      [where s = enhanced_init and a = "scored_whale 0.5" and b = "scored_whale 0.5"
         and cfg = default_config] n g
    by blast
  moreover have "fst (process_whale_discovery default_config (scored_whale 0.5)
         (snd (process_all default_config [scored_whale 0.3] enhanced_init))) = False"
    using promotion_only_at_creation
      [where s = "snd (process_all default_config [scored_whale 0.3] enhanced_init)"
         and whale = "scored_whale 0.5" and cfg = default_config] k
    by blast
  ultimately show ?thesis using n g k u r by blast
qed

text \<open>
  The claim as written fails for a wallet whose first event is below the threshold: after
  the scores 0.3 and 0.5 the best score is 0.5, at least 0.45, and the wallet is not
  promoted: neither call returned a promotion, and the stored flag is still false.
\<close>

theorem promotion_after_improvement_counterexample:
  "fst (process_all default_config [scored_whale 0.3, scored_whale 0.5] enhanced_init)
     = [False, False]
   \<and> enhanced_best_score
        (snd (process_all default_config [scored_whale 0.3, scored_whale 0.5] enhanced_init)) ''W''
     = Some 0.5
   \<and> enhanced_promoted
        (snd (process_all default_config [scored_whale 0.3, scored_whale 0.5] enhanced_init)) ''W''
     = Some False
   \<and> auto_add_threshold default_config = 0.45"
  unfolding improved_run
  by (simp add: enhanced_best_score_def enhanced_promoted_def scored_whale_def default_config_def)

section \<open>Frames that produce no event\<close>

lemma dev_points_le: "dev_points d \<le> 0.1"
  by (simp add: dev_points_def)

lemma platform_points_le: "platform_points p = Inr pp \<Longrightarrow> pp \<le> 0.1"
  by (auto simp: platform_points_def split: sum.splits bool.splits)

lemma social_points_le: "social_points td \<le> 0.15"
  by (simp add: social_points_def)

lemma safe_get_float_absent:
  "map_of token k = None \<Longrightarrow> safe_get_float py token k = Inr (Fin 0)"
  by (simp add: safe_get_float_def dict_get_def)

lemma sdk_token_data_absent:
  assumes "sdk_token_data py now token source = Inr td"
    and "map_of token ''initial_liquidity_sol'' = None"
    and "map_of token ''snipers_hold_percent'' = None"
    and "map_of token ''lp_burned'' = None"
  shows "td_liquidity_sol td = Fin 0 \<and> td_snipers_hold_percent td = Some (Fin 0)
         \<and> td_lp_burned td = Some (JBool False)"
  using assms
  by (auto simp: sdk_token_data_def safe_get_float_absent dict_get_def split: sum.splits)

text \<open>Without liquidity, snipers and LP flag the score is at most 0.35, below the gate of 0.4.\<close>

lemma low_score:
  assumes "td_liquidity_sol td = Fin 0" and "td_snipers_hold_percent td = Some (Fin 0)"
    and "td_lp_burned td = Some (JBool False)"
    and "calculate_whale_confidence td = Inr confidence"
  shows "confidence \<le> 0.35"
proof -
  from assms(4) obtain r where r: "raw_score td = Inr r" and c: "confidence = min 1 (max 0 r)"
    by (auto simp: calculate_whale_confidence_def split: sum.splits)
  from r obtain pp where pp: "platform_points (td_platform td) = Inr pp"
    and r2: "r = 0 + liquidity_points (td_liquidity_sol td)
               + sniper_points (get_number (td_snipers_hold_percent td))
               + dev_points (get_number (td_dev_holds_percent td))
               + lp_points (td_lp_burned td) + pp + social_points td"
    by (auto simp: raw_score_def split: sum.splits)
  have "liquidity_points (td_liquidity_sol td) = 0"
    using assms(1) by (simp add: liquidity_points_def)
  moreover have "sniper_points (get_number (td_snipers_hold_percent td)) = 0"
    using assms(2) by (simp add: sniper_points_def get_number_def)
  moreover have "lp_points (td_lp_burned td) = 0" using assms(3) by (simp add: lp_points_def)
  moreover note dev_points_le [of "get_number (td_dev_holds_percent td)"]
    platform_points_le [OF pp] social_points_le [of td]
  ultimately have "r \<le> 0.35" using r2 by simp
  then show ?thesis using c by simp
qed

lemma process_sdk_token_no_event:
  assumes "map_of token ''initial_liquidity_sol'' = None"
    and "map_of token ''snipers_hold_percent'' = None"
    and "map_of token ''lp_burned'' = None"
  shows "fst (process_sdk_token py now token source s) = s"
proof (cases "sdk_token_data py now token source")
  case (Inl e)
  then show ?thesis by (simp add: process_sdk_token_def)
next
  case (Inr td)
  note f = sdk_token_data_absent [OF Inr assms]
  show ?thesis
  proof (cases "calculate_whale_confidence td")
    case (Inl e)
    with Inr show ?thesis by (simp add: process_sdk_token_def)
  next
    case c: (Inr confidence)
    have "confidence \<le> 0.35" using low_score [of td confidence] f c by simp
    then have "\<not> confidence > 0.4" by simp
    with Inr c show ?thesis by (simp add: process_sdk_token_def)
  qed
qed

text \<open>
  C5, as the code has it: a positional array of at most 25 fields (one of 5 fields among
  them) and a new\_pairs message whose content has none of the fields
  initial\_liquidity\_sol, snipers\_hold\_percent and lp\_burned (an empty content among
  them) raise nothing and produce no event: \<open>parse_real_message\<close> returns the state it
  was given. The state holds every counter of the program, and there is no counter of
  malformed messages among them, so none is incremented.
\<close>

theorem malformed_frames_leave_state:
  "(length xs \<le> 25 \<longrightarrow> parse_real_message py now (Json (JList xs)) endpoint s = s)
   \<and> (map_of token ''initial_liquidity_sol'' = None
        \<and> map_of token ''snipers_hold_percent'' = None
        \<and> map_of token ''lp_burned'' = None \<longrightarrow>
      parse_real_message py now
        (Json (JDict [(''room'', JStr ''new_pairs''), (''content'', JDict token)])) endpoint s
      = s)"
proof (intro conjI impI)
  assume "length xs \<le> 25"
  then show "parse_real_message py now (Json (JList xs)) endpoint s = s"
    by (simp add: parse_real_message_def)
next
  assume a: "map_of token ''initial_liquidity_sol'' = None
        \<and> map_of token ''snipers_hold_percent'' = None
        \<and> map_of token ''lp_burned'' = None"
  have "fst (process_sdk_token py now token endpoint s) = s"
    using a by (intro process_sdk_token_no_event) simp_all
  then have "sdk_tokens_loop py now [JDict token] endpoint s = s"
    by (cases "process_sdk_token py now token endpoint s") (auto split: option.splits)
  then show "parse_real_message py now
        (Json (JDict [(''room'', JStr ''new_pairs''), (''content'', JDict token)])) endpoint s
      = s"
    by (simp add: parse_real_message_def process_sdk_new_pairs_def dict_get_def)
qed

theorem malformed_frames_witness:
  "parse_real_message plain_builtins 0 short_array ''cluster7'' (init_state 0) = init_state 0
   \<and> parse_real_message plain_builtins 0 empty_room_message ''cluster7'' (init_state 0)
       = init_state 0"
  using malformed_frames_leave_state
    [of "[JInt 1, JStr ''TokAddr'', JStr ''CreatorAddr'', JStr ''Rumor Coin'', JStr ''RUMOR'']"
        plain_builtins 0 "''cluster7''" "init_state 0" "[]"]
  by (simp add: short_array_def empty_room_message_def)

text \<open>A content without address, name and platform gets the defaults and is recorded.\<close>

lemma nameless_token_recorded:
  "metrics (fst (process_sdk_token plain_builtins 0
       [(''initial_liquidity_sol'', JInt 1200), (''snipers_hold_percent'', JInt 60)]
       ''cluster7'' (init_state 0)))
   = \<lparr>messages_received = 0, whales_discovered = 1, auto_added = 1, start_time = 0,
      last_whale_time = 0\<rparr>
   \<and> snd (process_sdk_token plain_builtins 0
       [(''initial_liquidity_sol'', JInt 1200), (''snipers_hold_percent'', JInt 60)]
       ''cluster7'' (init_state 0)) = None"
  by (simp add: process_sdk_token_def sdk_token_data_def safe_get_float_def dict_get_def
      plain_builtins_def calculate_whale_confidence_def raw_score_def unknown_platform
      liquidity_points_def sniper_points_def dev_points_def lp_points_def social_points_def
      get_number_def float_overflow_bound_large record_whale_discovery_def init_state_def
      auto_add_whale_def Let_def)

text \<open>
  The claim as written fails where it says that a counter of malformed messages goes up
  by 1: after the array of five fields and after the message with the empty content,
  each from the initial state, every counter of the metrics is still 0. And a content
  that lacks fields is not always without an event: the content with two numbers and no
  address, name or platform is recorded as a whale.
\<close>

theorem malformed_counter_counterexample:
  "metrics (parse_real_message plain_builtins 0 short_array ''cluster7'' (init_state 0))
     = \<lparr>messages_received = 0, whales_discovered = 0, auto_added = 0, start_time = 0,
        last_whale_time = 0\<rparr>
   \<and> metrics (parse_real_message plain_builtins 0 empty_room_message ''cluster7''
                (init_state 0))
     = \<lparr>messages_received = 0, whales_discovered = 0, auto_added = 0, start_time = 0,
        last_whale_time = 0\<rparr>
   \<and> whales_discovered (metrics (parse_real_message plain_builtins 0 nameless_room_message
                ''cluster7'' (init_state 0))) = 1"
proof -
  have "parse_real_message plain_builtins 0 nameless_room_message ''cluster7'' (init_state 0)
        = fst (process_sdk_token plain_builtins 0
            [(''initial_liquidity_sol'', JInt 1200), (''snipers_hold_percent'', JInt 60)]
            ''cluster7'' (init_state 0))"
    using nameless_token_recorded
    by (simp add: parse_real_message_def nameless_room_message_def process_sdk_new_pairs_def
        dict_get_def split_def)
  then have w: "whales_discovered (metrics (parse_real_message plain_builtins 0
                  nameless_room_message ''cluster7'' (init_state 0))) = 1"
    using nameless_token_recorded by simp
  have e: "process_sdk_token plain_builtins 0 [] ''cluster7'' (init_state 0)
           = (init_state 0, None)"
    by (simp add: process_sdk_token_def sdk_token_data_def safe_get_float_def dict_get_def
        plain_builtins_def calculate_whale_confidence_def raw_score_def unknown_platform
        liquidity_points_def sniper_points_def dev_points_def lp_points_def social_points_def
        get_number_def)
  have "parse_real_message plain_builtins 0 empty_room_message ''cluster7'' (init_state 0)
        = init_state 0"
    by (simp add: parse_real_message_def empty_room_message_def process_sdk_new_pairs_def
        dict_get_def e)
  moreover
  have "parse_real_message plain_builtins 0 short_array ''cluster7'' (init_state 0)
        = init_state 0"
    by (simp add: parse_real_message_def short_array_def)
  ultimately show ?thesis using w by (simp add: init_state_def)
qed

section \<open>The connection handler gives up after ten failures\<close>








lemma three_failures_events:
  "websocket_connection_handler three_failures =
     [Connecting 1, Retrying 2, Connecting 2, Retrying 4, Connecting 3, RefreshAuthentication,
      Retrying 8, Connecting 4]"
  by code_simp




end
